theory Spec2Isabelle
  imports Complex_Main "HOL-Library.Word"
begin

unbundle bit_operations_syntax

section \<open>Numeric and geometric base types\<close>

text \<open>
  The C++ \<open>float\<close> and \<open>double\<close> values of SimpleSkyNode.cpp are modelled as
  \<open>real\<close>: the formulas are those of the source, the rounding of IEEE arithmetic is
  not modelled. Indices pushed into an \<open>osg::DrawElementsUShort\<close> are 16-bit words,
  node masks are 32-bit words.
\<close>

type_synonym Vec2 = "real \<times> real"
type_synonym Vec3 = "real \<times> real \<times> real"
type_synonym Vec4 = "real \<times> real \<times> real \<times> real"
type_synonym ushort = "16 word"

definition DegreesToRadians :: "real \<Rightarrow> real" where
  \<comment> \<open>\<open>osg::DegreesToRadians(angle) = angle * PI / 180\<close>\<close>
  "DegreesToRadians angle = angle * (pi / 180)"

definition vec3_length :: "Vec3 \<Rightarrow> real" where
  "vec3_length v = (case v of (x, y, z) \<Rightarrow> sqrt (x * x + y * y + z * z))"

definition vec3_div :: "Vec3 \<Rightarrow> real \<Rightarrow> Vec3" where
  "vec3_div v d = (case v of (x, y, z) \<Rightarrow> (x / d, y / d, z / d))"

definition dot :: "Vec3 \<Rightarrow> Vec3 \<Rightarrow> real" where
  \<comment> \<open>\<open>osg::Vec3::operator*\<close>, the dot product\<close>
  "dot a b = (case a of (ax, ay, az) \<Rightarrow> case b of (bx, by, bz) \<Rightarrow> ax * bx + ay * by + az * bz)"

definition normalize :: "Vec3 \<Rightarrow> Vec3" where
  \<comment> \<open>\<open>osg::Vec3::normalize\<close>: scales by the inverse norm when the norm is positive,
      leaves the vector alone otherwise\<close>
  "normalize v = (if vec3_length v > 0 then vec3_div v (vec3_length v) else v)"

definition clampBetween :: "real \<Rightarrow> real \<Rightarrow> real \<Rightarrow> real" where
  \<comment> \<open>\<open>osg::clampBetween(v, minimum, maximum)\<close>\<close>
  "clampBetween v minimum maximum =
     (if v < minimum then minimum else if v > maximum then maximum else v)"

section \<open>MeshFactory: the ellipsoid and the disc geometry\<close>

record EllipsoidModel =
  radiusEquator :: real
  radiusPolar :: real

text \<open>
  \<open>osg::EllipsoidModel::convertLatLongHeightToXYZ\<close> belongs to the scene-graph library;
  the mesh builder takes it as the parameter \<open>conv\<close> (ellipsoid, latitude, longitude,
  height, giving the Cartesian point).
\<close>

type_synonym LatLongHeightToXYZ = "EllipsoidModel \<Rightarrow> real \<Rightarrow> real \<Rightarrow> real \<Rightarrow> Vec3"

record Geometry =
  verts :: "Vec3 list"
  texCoords :: "Vec2 list option"
  normals :: "Vec3 list option"
  el :: "ushort list"

text \<open>
  One pass of the inner loop body of \<open>s_makeEllipsoidGeometry\<close> (source lines 108-138),
  at row \<open>y\<close> and column \<open>x\<close>. The loop counters are C \<open>int\<close>s far from overflow; the
  \<open>push_back\<close> into the unsigned-short element array truncates to 16 bits.
\<close>

definition ellipsoid_body ::
  "LatLongHeightToXYZ \<Rightarrow> EllipsoidModel \<Rightarrow> real \<Rightarrow> bool \<Rightarrow> nat \<Rightarrow> nat \<Rightarrow> real \<Rightarrow>
   nat \<Rightarrow> nat \<Rightarrow> Geometry \<Rightarrow> Geometry" where
  "ellipsoid_body conv ellipsoid hae genTexCoords latSegments lonSegments segmentSize y x g =
     (let lat = - 90 + segmentSize * real y;
          lon = - 180 + segmentSize * real x;
          p = conv ellipsoid (DegreesToRadians lat) (DegreesToRadians lon) hae;
          g1 = g\<lparr>verts := verts g @ [p]\<rparr>;
          g2 = (if genTexCoords
                then g1\<lparr>texCoords :=
                          map_option (\<lambda>t. t @ [((lon + 180) / 360, (lat + 90) / 180)]) (texCoords g1)\<rparr>
                else g1);
          g3 = (case normals g2 of
                  Some ns \<Rightarrow> g2\<lparr>normals := Some (ns @ [normalize p])\<rparr>
                | None \<Rightarrow> g2)
      in if y < latSegments
         then (let x_plus_1 = (if int x < int lonSegments - 1 then x + 1 else 0);
                   y_plus_1 = y + 1
               in g3\<lparr>el := el g3 @
                    [of_nat (y * lonSegments + x),
                     of_nat (y_plus_1 * lonSegments + x),
                     of_nat (y * lonSegments + x_plus_1),
                     of_nat (y * lonSegments + x_plus_1),
                     of_nat (y_plus_1 * lonSegments + x),
                     of_nat (y_plus_1 * lonSegments + x_plus_1)]\<rparr>)
         else g3)"

text \<open>
  The two nested \<open>for\<close> loops, for any number of latitude segments: \<open>y\<close> runs over
  \<open>0 .. latSegments\<close> inclusive, \<open>x\<close> over \<open>0 .. lonSegments - 1\<close>.
\<close>

definition ellipsoid_loops ::
  "LatLongHeightToXYZ \<Rightarrow> nat \<Rightarrow> EllipsoidModel \<Rightarrow> real \<Rightarrow> bool \<Rightarrow> Geometry" where
  "ellipsoid_loops conv latSegments ellipsoid outerRadius genTexCoords =
     (let hae = outerRadius - radiusEquator ellipsoid;
          lonSegments = 2 * latSegments;
          segmentSize = 180 / real latSegments;
          g0 = \<lparr>verts = [],
                texCoords = (if genTexCoords then Some [] else None),
                normals = (if genTexCoords then Some [] else None),
                el = []\<rparr>
      in fold (\<lambda>y. fold (ellipsoid_body conv ellipsoid hae genTexCoords
                            latSegments lonSegments segmentSize y) [0..<lonSegments])
              [0..<latSegments + 1] g0)"

definition s_makeEllipsoidGeometry ::
  "LatLongHeightToXYZ \<Rightarrow> EllipsoidModel \<Rightarrow> real \<Rightarrow> bool \<Rightarrow> Geometry" where
  \<comment> \<open>\<open>int latSegments = 100;\<close>\<close>
  "s_makeEllipsoidGeometry conv ellipsoid outerRadius genTexCoords =
     ellipsoid_loops conv 100 ellipsoid outerRadius genTexCoords"

text \<open>
  The loop body of \<open>s_makeDiscGeometry\<close> (source lines 169-177) and the function itself,
  with \<open>segments = 48\<close>. The vertex array starts with the centre point.
\<close>

definition disc_body :: "nat \<Rightarrow> real \<Rightarrow> real \<Rightarrow> nat \<Rightarrow> Geometry \<Rightarrow> Geometry" where
  "disc_body segments deltaAngle radius i g =
     (let angle = DegreesToRadians (deltaAngle * real i);
          x = radius * cos angle;
          y = radius * sin angle;
          i_plus_1 = (if int i < int segments - 1 then i + 1 else 0)
      in g\<lparr>verts := verts g @ [(x, y, 0)],
            el := el g @ [0, of_nat (1 + i_plus_1), of_nat (1 + i)]\<rparr>)"

definition disc_loop :: "nat \<Rightarrow> real \<Rightarrow> Geometry" where
  "disc_loop segments radius =
     (let deltaAngle = 360 / real segments;
          g0 = \<lparr>verts = [(0, 0, 0)], texCoords = None, normals = None, el = []\<rparr>
      in fold (disc_body segments deltaAngle radius) [0..<segments] g0)"

definition s_makeDiscGeometry :: "real \<Rightarrow> Geometry" where
  \<comment> \<open>\<open>int segments = 48;\<close>\<close>
  "s_makeDiscGeometry radius = disc_loop 48 radius"

section \<open>Star records, the star catalogue filter and the star geometry\<close>

record StarData =
  name :: string
  right_ascension :: real
  declination :: real
  magnitude :: real

text \<open>
  The constructor \<open>StarData(std::stringstream&)\<close> (source lines 810-820) cuts a line at
  its commas and reads the three numbers with the standard library's \<open>operator>>\<close>. It is
  a pure function of the line and is taken as the parameter \<open>decode\<close>.
\<close>

type_synonym StarDecoder = "string \<Rightarrow> StarData"

definition push_pop :: "real \<Rightarrow> StarData \<Rightarrow> StarData list \<Rightarrow> StarData list" where
  \<comment> \<open>\<open>out_stars.push_back(StarData(ss));
       if (out_stars[out_stars.size() - 1].magnitude < _minStarMagnitude) out_stars.pop_back();\<close>\<close>
  "push_pop minStarMagnitude star out_stars =
     (let out1 = out_stars @ [star]
      in if magnitude (last out1) < minStarMagnitude then butlast out1 else out1)"

definition getDefaultStars :: "StarDecoder \<Rightarrow> real \<Rightarrow> string list \<Rightarrow> StarData list" where
  \<comment> \<open>the third argument is the table \<open>s_defaultStarData\<close> of the header \<open>StarData\<close>\<close>
  "getDefaultStars decode minStarMagnitude s_defaultStarData =
     fold (\<lambda>sptr out_stars. push_pop minStarMagnitude (decode sptr) out_stars)
          s_defaultStarData []"

text \<open>
  \<open>parseStarFile\<close>: the file is \<open>None\<close> when it cannot be opened, otherwise the list of its
  newline-terminated lines (a last line with no newline sets \<open>eof\<close> inside \<open>getline\<close> and
  is dropped by the \<open>break\<close>). The result pairs the returned flag with \<open>out_stars\<close>.
\<close>

definition parseStarFile ::
  "StarDecoder \<Rightarrow> real \<Rightarrow> string list option \<Rightarrow> bool \<times> StarData list" where
  "parseStarFile decode minStarMagnitude file =
     (case file of
        None \<Rightarrow> (False, [])
      | Some lines \<Rightarrow>
          (True,
           fold (\<lambda>line out_stars.
                   if line = [] \<or> hd line = CHR ''#'' then out_stars
                   else push_pop minStarMagnitude (decode line) out_stars)
                lines []))"

definition DBL_MAX :: real where
  "DBL_MAX = (2 - 1 / 2 ^ 52) * 2 ^ 1023"

definition DBL_MIN :: real where
  \<comment> \<open>the smallest positive normalised double\<close>
  "DBL_MIN = 1 / 2 ^ 1022"

record StarGeometry =
  coords :: "Vec3 list"
  colors :: "real option list"

definition star_loop1 ::
  "(real \<Rightarrow> real \<Rightarrow> real \<Rightarrow> Vec3) \<Rightarrow> real \<Rightarrow> StarData list \<Rightarrow> Vec3 list \<times> real \<times> real" where
  \<comment> \<open>the first loop of \<open>buildStarGeometry\<close> (lines 852-867): coordinates, \<open>minMag\<close>, \<open>maxMag\<close>\<close>
  "star_loop1 getECEFfromRADecl starRadius stars =
     fold (\<lambda>p (cs, minMag, maxMag).
             (cs @ [getECEFfromRADecl (right_ascension p) (declination p) starRadius],
              (if magnitude p < minMag then magnitude p else minMag),
              (if magnitude p > maxMag then magnitude p else maxMag)))
          stars ([], DBL_MAX, DBL_MIN)"

definition star_color :: "real \<Rightarrow> real \<Rightarrow> real \<Rightarrow> real option" where
  \<comment> \<open>\<open>float c = (p->magnitude - minMag) / (maxMag - minMag)\<close>; \<open>None\<close> when the divisor is
      zero and the quotient is no finite number\<close>
  "star_color mag minMag maxMag =
     (if maxMag - minMag = 0 then None else Some ((mag - minMag) / (maxMag - minMag)))"

definition buildStarGeometry ::
  "(real \<Rightarrow> real \<Rightarrow> real \<Rightarrow> Vec3) \<Rightarrow> real \<Rightarrow> StarData list \<Rightarrow> StarGeometry" where
  \<comment> \<open>each colour is \<open>osg::Vec4(c, c, c, 1.0f)\<close>; the channel \<open>c\<close> is stored\<close>
  "buildStarGeometry getECEFfromRADecl starRadius stars =
     (case star_loop1 getECEFfromRADecl starRadius stars of
        (cs, minMag, maxMag) \<Rightarrow>
          \<lparr>coords = cs,
           colors = map (\<lambda>p. star_color (magnitude p) minMag maxMag) stars\<rparr>)"

definition star_divisor ::
  "(real \<Rightarrow> real \<Rightarrow> real \<Rightarrow> Vec3) \<Rightarrow> real \<Rightarrow> StarData list \<Rightarrow> real" where
  \<comment> \<open>\<open>maxMag - minMag\<close> as the second loop of \<open>buildStarGeometry\<close> uses it\<close>
  "star_divisor getECEFfromRADecl starRadius stars =
     (case star_loop1 getECEFfromRADecl starRadius stars of
        (cs, minMag, maxMag) \<Rightarrow> maxMag - minMag)"

section \<open>The sky node: data model\<close>

text \<open>
  A viewport is identified by the address of its \<open>osg::View\<close>; address \<open>0\<close> is the null
  pointer. A matrix is recorded by the library constructor that built it and the
  constructor's arguments.
\<close>

type_synonym View = nat

datatype Matrixd =
    MatIdentity
  | MatTranslate real real real
  | MatRotate real real real real

record DateTime =
  year :: int
  month :: int
  day :: int
  hours :: real

record Ephemeris =
  getSunPositionECEF :: "DateTime \<Rightarrow> Vec3"
  getMoonPositionECEF :: "DateTime \<Rightarrow> Vec3"
  getECEFfromRADecl :: "real \<Rightarrow> real \<Rightarrow> real \<Rightarrow> Vec3"

record Light =
  lightNum :: int
  position :: Vec4
  ambient :: Vec4
  diffuse :: Vec4
  specular :: Vec4

record MatrixTransform =
  matrix :: Matrixd
  nodeMask :: "32 word"

datatype SceneChild = SunXform | MoonXform | StarsXform | Atmosphere | TraverseNode

text \<open>
  \<open>PerViewData\<close> is declared in the header of the class. Its \<open>osg::ref_ptr\<close> members are
  options (\<open>None\<close> is the null pointer a default-constructed \<open>ref_ptr\<close> holds); the date is
  \<open>None\<close> until the first assignment to \<open>_date\<close>. Of the scene graph only the matrices,
  the node masks and the children of the cull container are kept: shaders, state sets,
  render bins and nested cameras carry nothing that the functions below read back.
\<close>

record PerViewData =
  lightPos :: Vec3
  light :: "Light option"
  lightPosUniform :: "Vec3 option"
  cullContainer :: "SceneChild list option"
  sunXform :: "MatrixTransform option"
  moonXform :: "MatrixTransform option"
  starsXform :: "MatrixTransform option"
  sunMatrix :: Matrixd
  moonMatrix :: Matrixd
  starsMatrix :: Matrixd
  date :: "DateTime option"

definition PerViewData0 :: PerViewData where
  \<comment> \<open>a default-constructed \<open>PerViewData\<close>\<close>
  "PerViewData0 =
     \<lparr>lightPos = (0, 0, 0), light = None, lightPosUniform = None, cullContainer = None,
      sunXform = None, moonXform = None, starsXform = None,
      sunMatrix = MatIdentity, moonMatrix = MatIdentity, starsMatrix = MatIdentity,
      date = None\<rparr>"

text \<open>
  \<open>PerViewDataMap\<close> is a \<open>std::map\<close> from view to data: an association list kept in
  ascending key order, so that \<open>begin()\<close> is its head. \<open>map_find\<close> is \<open>find\<close>,
  \<open>map_index\<close> is what \<open>operator[]\<close> does to the map (a default-constructed entry is
  inserted when the key is new), \<open>map_modify\<close> writes through the reference that
  \<open>operator[]\<close> or an iterator gives.
\<close>

type_synonym PerViewDataMap = "(View \<times> PerViewData) list"

definition map_find :: "PerViewDataMap \<Rightarrow> View \<Rightarrow> PerViewData option" where
  "map_find m view = map_of m view"

fun map_insert :: "View \<Rightarrow> PerViewData \<Rightarrow> PerViewDataMap \<Rightarrow> PerViewDataMap" where
  "map_insert k d [] = [(k, d)]"
| "map_insert k d ((k', d') # m) =
     (if k < k' then (k, d) # (k', d') # m else (k', d') # map_insert k d m)"

definition map_index :: "View \<Rightarrow> PerViewDataMap \<Rightarrow> PerViewDataMap" where
  "map_index view m =
     (case map_find m view of Some d \<Rightarrow> m | None \<Rightarrow> map_insert view PerViewData0 m)"

definition map_modify ::
  "View \<Rightarrow> (PerViewData \<Rightarrow> PerViewData) \<Rightarrow> PerViewDataMap \<Rightarrow> PerViewDataMap" where
  "map_modify view f m = map (\<lambda>(k, d). if k = view then (k, f d) else (k, d)) m"

definition map_all :: "(PerViewData \<Rightarrow> PerViewData) \<Rightarrow> PerViewDataMap \<Rightarrow> PerViewDataMap" where
  \<comment> \<open>\<open>for (i = _perViewData.begin(); i != _perViewData.end(); ++i)\<close> writing \<open>i->second\<close>\<close>
  "map_all f m = map (\<lambda>(k, d). (k, f d)) m"

datatype UniformValue = UFloat real | UInt int | UVec3 Vec3

text \<open>
  The node. The first six fields are the members of the base class \<open>SkyNode\<close> that this
  file reads through \<open>getDateTime\<close>, \<open>getEphemeris\<close>, \<open>getSunVisible\<close>, \<open>getMoonVisible\<close>,
  \<open>getStarsVisible\<close> and \<open>_minStarMagnitude\<close>; \<open>starFile\<close> is the option of
  \<open>SimpleSkyOptions\<close>; \<open>uniforms\<close> are the uniforms of the node's own state set.
\<close>

record SimpleSkyNode =
  dateTime :: DateTime
  ephemeris :: Ephemeris
  sunVisible :: bool
  moonVisible :: bool
  starsVisible :: bool
  minStarMagnitude :: real
  starFile :: "string option"
  defaultPerViewData :: PerViewData
  perViewData :: PerViewDataMap
  ellipsoidModel :: "EllipsoidModel option"
  innerRadius :: real
  outerRadius :: real
  sunDistance :: real
  starRadius :: real
  autoAmbience :: bool
  moonPosition :: Vec3
  uniforms :: "string \<rightharpoonup> UniformValue"
  atmosphere :: "Geometry option"
  sun :: "Geometry option"
  moon :: "Geometry option"
  stars :: "StarGeometry option"

text \<open>
  What the constructor and \<open>initialize\<close> take from outside the class: the coordinate
  conversion of the scene-graph library, the value of the environment variable
  \<open>OSGEARTH_MIN_STAR_MAGNITUDE\<close> already converted by \<open>as<float>(.., -1.0f)\<close> (\<open>None\<close> when
  unset), the star files that can be opened, the built-in star table and the decoder,
  and whether the moon texture could be read.
\<close>

record Environment =
  conv :: LatLongHeightToXYZ
  magEnv :: "real option"
  files :: "string \<Rightarrow> string list option"
  s_defaultStarData :: "string list"
  decode :: StarDecoder
  moonImage :: bool

section \<open>The sky node: operations\<close>

definition visibility_mask :: "bool \<Rightarrow> 32 word" where
  \<comment> \<open>\<open>visible ? ~0 : 0\<close>\<close>
  "visibility_mask visible = (if visible then NOT 0 else 0)"

definition setSunPosition_data :: "real \<Rightarrow> Vec3 \<Rightarrow> PerViewData \<Rightarrow> PerViewData" where
  \<comment> \<open>\<open>setSunPosition(PerViewData&, const osg::Vec3&)\<close>, lines 493-511; the first argument
      is \<open>_sunDistance\<close>. The division by the vector's length is unguarded in the source.\<close>
  "setSunPosition_data sunDist pos data =
     (let d1 = data\<lparr>lightPos := pos\<rparr>;
          d2 = (case light d1 of
                  Some l \<Rightarrow>
                    d1\<lparr>light := Some (l\<lparr>position :=
                           (case lightPos d1 of (x, y, z) \<Rightarrow> (x, y, z, 0))\<rparr>)\<rparr>
                | None \<Rightarrow> d1);
          d3 = (case lightPosUniform d2 of
                  Some u \<Rightarrow>
                    d2\<lparr>lightPosUniform :=
                         Some (vec3_div (lightPos d2) (vec3_length (lightPos d2)))\<rparr>
                | None \<Rightarrow> d2)
      in case sunXform d3 of
           Some xf \<Rightarrow>
             d3\<lparr>sunXform := Some (xf\<lparr>matrix :=
                  (case lightPos d3 of (x, y, z) \<Rightarrow>
                     MatTranslate (sunDist * x) (sunDist * y) (sunDist * z))\<rparr>)\<rparr>
         | None \<Rightarrow> d3)"

definition setMoonPosition_data :: "Vec3 \<Rightarrow> PerViewData \<Rightarrow> PerViewData" where
  \<comment> \<open>\<open>setMoonPosition(PerViewData&, const osg::Vec3d&)\<close>, lines 529-537\<close>
  "setMoonPosition_data pos data =
     (case moonXform data of
        Some xf \<Rightarrow>
          (let m = (case pos of (x, y, z) \<Rightarrow> MatTranslate x y z)
           in data\<lparr>moonMatrix := m, moonXform := Some (xf\<lparr>matrix := m\<rparr>)\<rparr>)
      | None \<Rightarrow> data)"

definition setSunPosition :: "Vec3 \<Rightarrow> View \<Rightarrow> SimpleSkyNode \<Rightarrow> SimpleSkyNode" where
  \<comment> \<open>\<open>setSunPosition(const osg::Vec3&, osg::View*)\<close>, lines 462-475\<close>
  "setSunPosition pos view s =
     (if view = 0
      then s\<lparr>defaultPerViewData := setSunPosition_data (sunDistance s) pos (defaultPerViewData s),
             perViewData := map_all (setSunPosition_data (sunDistance s) pos) (perViewData s)\<rparr>
      else if map_find (perViewData s) view \<noteq> None
      then s\<lparr>perViewData :=
               map_modify view (setSunPosition_data (sunDistance s) pos) (perViewData s)\<rparr>
      else s)"

definition setMoonPosition :: "Vec3 \<Rightarrow> View \<Rightarrow> SimpleSkyNode \<Rightarrow> SimpleSkyNode" where
  \<comment> \<open>\<open>setMoonPosition(const osg::Vec3d&, osg::View*)\<close>, lines 477-491\<close>
  "setMoonPosition pos view s0 =
     (let s = s0\<lparr>moonPosition := pos\<rparr>
      in if view = 0
         then s\<lparr>defaultPerViewData := setMoonPosition_data pos (defaultPerViewData s),
                perViewData := map_all (setMoonPosition_data pos) (perViewData s)\<rparr>
         else if map_find (perViewData s) view \<noteq> None
         then s\<lparr>perViewData := map_modify view (setMoonPosition_data pos) (perViewData s)\<rparr>
         else s)"

definition rot_z :: "DateTime \<Rightarrow> real" where
  \<comment> \<open>\<open>double time_r = dt.hours()/24.0; double rot_z = -osg::PI + TWO_PI*time_r;\<close>
      The literals \<open>osg::PI\<close> and \<open>TWO_PI\<close> stand for \<open>\<pi>\<close> and \<open>2\<pi>\<close>.\<close>
  "rot_z dt = (let time_r = hours dt / 24 in - pi + (2 * pi) * time_r)"

definition set_stars :: "Matrixd \<Rightarrow> DateTime \<Rightarrow> PerViewData \<Rightarrow> PerViewData" where
  \<comment> \<open>the body of the loop at lines 341-343; entries of the map are made by \<open>attach\<close>
      alone, which gives each of them a star transform\<close>
  "set_stars m dt data =
     data\<lparr>starsMatrix := m,
          starsXform := map_option (\<lambda>xf. xf\<lparr>matrix := m\<rparr>) (starsXform data),
          date := Some dt\<rparr>"

definition onSetDateTime :: "SimpleSkyNode \<Rightarrow> SimpleSkyNode" where
  \<comment> \<open>lines 314-354; the local \<open>view\<close> is the null pointer, so the branch of line 346
      is never taken\<close>
  "onSetDateTime s =
     (case ellipsoidModel s of
        None \<Rightarrow> s
      | Some em \<Rightarrow>
          (let view = (0 :: View);
               dt = dateTime s;
               sunPos = getSunPositionECEF (ephemeris s) dt;
               moonPos = getMoonPositionECEF (ephemeris s) dt;
               sunPos1 = normalize sunPos;
               s1 = setSunPosition sunPos1 view s;
               s2 = setMoonPosition moonPos view s1;
               starsMat = MatRotate (- rot_z dt) 0 0 1
           in if view = 0
              then s2\<lparr>defaultPerViewData :=
                         (defaultPerViewData s2)\<lparr>starsMatrix := starsMat, date := Some dt\<rparr>,
                      perViewData := map_all (set_stars starsMat dt) (perViewData s2)\<rparr>
              else if map_find (perViewData s2) view \<noteq> None
              then s2\<lparr>perViewData := map_modify view (set_stars starsMat dt) (perViewData s2)\<rparr>
              else s2))"

definition onSetEphemeris :: "SimpleSkyNode \<Rightarrow> SimpleSkyNode" where
  "onSetEphemeris s = onSetDateTime s"

definition attach_data :: "SimpleSkyNode \<Rightarrow> int \<Rightarrow> PerViewData \<Rightarrow> PerViewData" where
  \<comment> \<open>lines 364-407 of \<open>attach\<close>: what is written through the reference \<open>data\<close>. The
      light and the uniform are clones of the default state's.\<close>
  "attach_data s lightNumber data =
     (let dflt = defaultPerViewData s;
          lp = lightPos dflt;
          sunMat = (case lp of (x, y, z) \<Rightarrow>
                      MatTranslate (sunDistance s * x) (sunDistance s * y) (sunDistance s * z))
      in data\<lparr>light := map_option (\<lambda>l. l\<lparr>lightNum := lightNumber, ambient := ambient l\<rparr>)
                                   (light dflt),
               lightPos := lp,
               cullContainer := Some [SunXform, MoonXform, StarsXform, Atmosphere, TraverseNode],
               sunXform := Some \<lparr>matrix = sunMat, nodeMask = visibility_mask (sunVisible s)\<rparr>,
               sunMatrix := sunMat,
               moonXform := Some \<lparr>matrix = moonMatrix dflt,
                                  nodeMask = visibility_mask (moonVisible s)\<rparr>,
               moonMatrix := moonMatrix dflt,
               starsXform := Some \<lparr>matrix = starsMatrix dflt,
                                   nodeMask = visibility_mask (starsVisible s)\<rparr>,
               starsMatrix := starsMatrix dflt,
               lightPosUniform := lightPosUniform dflt,
               date := date dflt\<rparr>)"

definition attach :: "View \<Rightarrow> int \<Rightarrow> SimpleSkyNode \<Rightarrow> SimpleSkyNode" where
  \<comment> \<open>lines 356-410. \<open>_perViewData[view]\<close> creates the entry when the view is new. The
      calls on the view itself (lighting mode, light, clear colour) change the view,
      not the node.\<close>
  "attach view lightNumber s =
     (if view = 0 then s
      else onSetDateTime
             (s\<lparr>perViewData :=
                  map_modify view (attach_data s lightNumber)
                    (map_index view (perViewData s))\<rparr>))"

text \<open>
  \<open>traverse\<close>. The iterator of lines 269-277: the entry of the view, or \<open>begin()\<close>; \<open>None\<close>
  is the past-the-end iterator, which the source goes on to dereference.
\<close>

definition traverse_itr :: "PerViewDataMap \<Rightarrow> View \<Rightarrow> (View \<times> PerViewData) option" where
  "traverse_itr m view =
     (case map_find m view of
        Some d \<Rightarrow> Some (view, d)
      | None \<Rightarrow> (case m of [] \<Rightarrow> None | e # rest \<Rightarrow> Some e))"

definition auto_ambient :: "Vec3 \<Rightarrow> Vec3 \<Rightarrow> real" where
  \<comment> \<open>lines 282-290: \<open>amb\<close> from the view point and the light position\<close>
  "auto_ambient viewPoint lightPosition =
     (let minAmb = 0.2; maxAmb = 0.92; minDev = - 0.2; maxDev = 0.75;
          eye = normalize viewPoint;
          sunv = normalize lightPosition;
          dev = clampBetween (dot eye sunv) minDev maxDev;
          r = (dev - minDev) / (maxDev - minDev)
      in minAmb + r * (maxAmb - minAmb))"

datatype Traversal = Culled View | GroupTraverse

text \<open>
  The visitor is \<open>Some (view, viewPoint)\<close> for a cull visitor (the view of its current
  camera and its view point) and \<open>None\<close> for any other visitor. The result is \<open>None\<close>
  where the source dereferences the past-the-end iterator or a null pointer; otherwise
  the node and the entry whose cull container took the visitor.
\<close>

definition traverse ::
  "(View \<times> Vec3) option \<Rightarrow> SimpleSkyNode \<Rightarrow> (SimpleSkyNode \<times> Traversal) option" where
  "traverse cv s =
     (case cv of
        None \<Rightarrow> Some (s, GroupTraverse)
      | Some (view, viewPoint) \<Rightarrow>
          (case traverse_itr (perViewData s) view of
             None \<Rightarrow> None
           | Some (k, d) \<Rightarrow>
               (if autoAmbience s
                then (case light d of
                        None \<Rightarrow> None
                      | Some l \<Rightarrow>
                          (case cullContainer d of
                             None \<Rightarrow> None
                           | Some c \<Rightarrow>
                               (let amb = auto_ambient viewPoint (lightPos d)
                                in Some (s\<lparr>perViewData :=
                                            map_modify k
                                              (\<lambda>e. e\<lparr>light := Some (l\<lparr>ambient := (amb, amb, amb, 1)\<rparr>)\<rparr>)
                                              (perViewData s)\<rparr>,
                                         Culled k))))
                else (case cullContainer d of
                        None \<Rightarrow> None
                      | Some c \<Rightarrow> Some (s, Culled k)))))"

definition set_mask :: "bool \<Rightarrow> MatrixTransform option \<Rightarrow> MatrixTransform option" where
  \<comment> \<open>\<open>xform->setNodeMask(visible ? ~0 : 0)\<close>\<close>
  "set_mask visible xf = map_option (\<lambda>x. x\<lparr>nodeMask := visibility_mask visible\<rparr>) xf"

definition onSetStarsVisible :: "SimpleSkyNode \<Rightarrow> SimpleSkyNode" where
  \<comment> \<open>lines 540-552\<close>
  "onSetStarsVisible s =
     (let visible = starsVisible s
      in case starsXform (defaultPerViewData s) of
           Some xf \<Rightarrow>
             s\<lparr>defaultPerViewData :=
                  (defaultPerViewData s)\<lparr>starsXform := set_mask visible (Some xf)\<rparr>,
               perViewData :=
                  map_all (\<lambda>d. d\<lparr>starsXform := set_mask visible (starsXform d)\<rparr>) (perViewData s)\<rparr>
         | None \<Rightarrow> s)"

definition onSetMoonVisible :: "SimpleSkyNode \<Rightarrow> SimpleSkyNode" where
  \<comment> \<open>lines 554-566\<close>
  "onSetMoonVisible s =
     (let visible = moonVisible s
      in case moonXform (defaultPerViewData s) of
           Some xf \<Rightarrow>
             s\<lparr>defaultPerViewData :=
                  (defaultPerViewData s)\<lparr>moonXform := set_mask visible (Some xf)\<rparr>,
               perViewData :=
                  map_all (\<lambda>d. d\<lparr>moonXform := set_mask visible (moonXform d)\<rparr>) (perViewData s)\<rparr>
         | None \<Rightarrow> s)"

definition onSetSunVisible :: "SimpleSkyNode \<Rightarrow> SimpleSkyNode" where
  \<comment> \<open>lines 568-580\<close>
  "onSetSunVisible s =
     (let visible = sunVisible s
      in case sunXform (defaultPerViewData s) of
           Some xf \<Rightarrow>
             s\<lparr>defaultPerViewData :=
                  (defaultPerViewData s)\<lparr>sunXform := set_mask visible (Some xf)\<rparr>,
               perViewData :=
                  map_all (\<lambda>d. d\<lparr>sunXform := set_mask visible (sunXform d)\<rparr>) (perViewData s)\<rparr>
         | None \<Rightarrow> s)"

text \<open>
  The setters of the base class \<open>SkyNode\<close> are declared outside this file: each stores
  its value and calls the hook of this file. The loops of the three visibility hooks
  call \<open>setNodeMask\<close> on the transforms of every entry of the map; every entry has them
  (lemma \<open>reachable_entries\<close> below).
\<close>

definition setStarsVisible :: "bool \<Rightarrow> SimpleSkyNode \<Rightarrow> SimpleSkyNode" where
  "setStarsVisible v s = onSetStarsVisible (s\<lparr>starsVisible := v\<rparr>)"

definition setMoonVisible :: "bool \<Rightarrow> SimpleSkyNode \<Rightarrow> SimpleSkyNode" where
  "setMoonVisible v s = onSetMoonVisible (s\<lparr>moonVisible := v\<rparr>)"

definition setSunVisible :: "bool \<Rightarrow> SimpleSkyNode \<Rightarrow> SimpleSkyNode" where
  "setSunVisible v s = onSetSunVisible (s\<lparr>sunVisible := v\<rparr>)"

definition setDateTime :: "DateTime \<Rightarrow> SimpleSkyNode \<Rightarrow> SimpleSkyNode" where
  "setDateTime dt s = onSetDateTime (s\<lparr>dateTime := dt\<rparr>)"

definition setEphemeris :: "Ephemeris \<Rightarrow> SimpleSkyNode \<Rightarrow> SimpleSkyNode" where
  "setEphemeris eph s = onSetEphemeris (s\<lparr>ephemeris := eph\<rparr>)"

section \<open>The sky node: construction\<close>

definition makeSceneLighting :: "SimpleSkyNode \<Rightarrow> SimpleSkyNode" where
  \<comment> \<open>lines 582-636; \<open>getOrCreateUniform(name, type)->set(value)\<close> is an update of the map\<close>
  "makeSceneLighting s =
     (let r_wl = 0.65 ^ 4;
          g_wl = 0.57 ^ 4;
          b_wl = 0.475 ^ 4;
          RGB_wl = (1 / r_wl, 1 / g_wl, 1 / b_wl);
          Kr = 0.0025;
          Kr4PI = Kr * 4 * pi;
          Km = 0.0015;
          Km4PI = Km * 4 * pi;
          ESun = 15;
          MPhase = - 0.095;
          RayleighScaleDepth = 0.25;
          Samples = 2;
          Weather = 1;
          Scale = 1 / (outerRadius s - innerRadius s)
      in s\<lparr>uniforms := (uniforms s)
            (''atmos_v3InvWavelength'' \<mapsto> UVec3 RGB_wl,
             ''atmos_fInnerRadius'' \<mapsto> UFloat (innerRadius s),
             ''atmos_fInnerRadius2'' \<mapsto> UFloat (innerRadius s * innerRadius s),
             ''atmos_fOuterRadius'' \<mapsto> UFloat (outerRadius s),
             ''atmos_fOuterRadius2'' \<mapsto> UFloat (outerRadius s * outerRadius s),
             ''atmos_fKrESun'' \<mapsto> UFloat (Kr * ESun),
             ''atmos_fKmESun'' \<mapsto> UFloat (Km * ESun),
             ''atmos_fKr4PI'' \<mapsto> UFloat Kr4PI,
             ''atmos_fKm4PI'' \<mapsto> UFloat Km4PI,
             ''atmos_fScale'' \<mapsto> UFloat Scale,
             ''atmos_fScaleDepth'' \<mapsto> UFloat RayleighScaleDepth,
             ''atmos_fScaleOverScaleDepth'' \<mapsto> UFloat (Scale / RayleighScaleDepth),
             ''atmos_g'' \<mapsto> UFloat MPhase,
             ''atmos_g2'' \<mapsto> UFloat (MPhase * MPhase),
             ''atmos_nSamples'' \<mapsto> UInt Samples,
             ''atmos_fSamples'' \<mapsto> UFloat (of_int Samples),
             ''atmos_fWeather'' \<mapsto> UFloat Weather)\<rparr>)"

definition makeAtmosphere :: "Environment \<Rightarrow> EllipsoidModel \<Rightarrow> SimpleSkyNode \<Rightarrow> SimpleSkyNode" where
  \<comment> \<open>lines 638-682\<close>
  "makeAtmosphere env em s =
     s\<lparr>atmosphere := Some (s_makeEllipsoidGeometry (conv env) em (outerRadius s) False)\<rparr>"

definition makeSun :: "SimpleSkyNode \<Rightarrow> SimpleSkyNode" where
  \<comment> \<open>lines 684-735; a new transform node has the mask \<open>0xffffffff\<close>\<close>
  "makeSun s =
     (let sunRadius = innerRadius s * 100;
          geom = s_makeDiscGeometry (sunRadius * 80);
          dflt = defaultPerViewData s;
          xf = \<lparr>matrix = (case lightPos dflt of (x, y, z) \<Rightarrow>
                   MatTranslate (sunDistance s * x) (sunDistance s * y) (sunDistance s * z)),
                nodeMask = NOT 0\<rparr>
      in s\<lparr>defaultPerViewData := dflt\<lparr>sunXform := Some xf\<rparr>, sun := Some geom\<rparr>)"

definition makeMoon :: "Environment \<Rightarrow> SimpleSkyNode \<Rightarrow> SimpleSkyNode" where
  \<comment> \<open>lines 737-808\<close>
  "makeMoon env s =
     (let em = \<lparr>radiusEquator = 1738140, radiusPolar = 1735970\<rparr>;
          geom = s_makeEllipsoidGeometry (conv env) em (radiusEquator em) True;
          moonPosECEF = getMoonPositionECEF (ephemeris s) (dateTime s);
          xf = \<lparr>matrix = (case moonPosECEF of (x, y, z) \<Rightarrow> MatTranslate x y z),
                nodeMask = NOT 0\<rparr>;
          s1 = s\<lparr>defaultPerViewData := (defaultPerViewData s)\<lparr>moonXform := Some xf\<rparr>\<rparr>;
          s2 = (if \<not> moonImage env
                then setMoonVisible False
                       (s1\<lparr>defaultPerViewData :=
                             (defaultPerViewData s1)\<lparr>moonXform := Some (xf\<lparr>nodeMask := 0\<rparr>)\<rparr>\<rparr>)
                else s1)
      in s2\<lparr>moon := Some geom\<rparr>)"

definition makeStars :: "Environment \<Rightarrow> SimpleSkyNode \<Rightarrow> SimpleSkyNode" where
  \<comment> \<open>lines 822-847. No star transform is made for the default state here.\<close>
  "makeStars env s =
     (let s1 = s\<lparr>starRadius :=
                    20000 * (if sunDistance s > 0 then sunDistance s else outerRadius s)\<rparr>;
          stars0 = (case starFile s1 of
                      Some f \<Rightarrow> snd (parseStarFile (decode env) (minStarMagnitude s1) (files env f))
                    | None \<Rightarrow> []);
          stars1 = (if stars0 = []
                    then getDefaultStars (decode env) (minStarMagnitude s1) (s_defaultStarData env)
                    else stars0)
      in s1\<lparr>stars := Some (buildStarGeometry (getECEFfromRADecl (ephemeris s1))
                             (starRadius s1) stars1)\<rparr>)"

definition constructed ::
  "DateTime \<Rightarrow> Ephemeris \<Rightarrow> bool \<Rightarrow> bool \<Rightarrow> bool \<Rightarrow> real \<Rightarrow> string option \<Rightarrow> SimpleSkyNode" where
  \<comment> \<open>the object when the constructor enters \<open>initialize\<close>: the members of the base class
      and the options as given, the map empty, the default state default-constructed.
      The radii and \<open>_autoAmbience\<close> are assigned by \<open>initialize\<close> before they are read.\<close>
  "constructed dt eph sunVis moonVis starsVis minMag file =
     \<lparr>dateTime = dt, ephemeris = eph, sunVisible = sunVis, moonVisible = moonVis,
      starsVisible = starsVis, minStarMagnitude = minMag, starFile = file,
      defaultPerViewData = PerViewData0, perViewData = [], ellipsoidModel = None,
      innerRadius = 0, outerRadius = 0, sunDistance = 0, starRadius = 0,
      autoAmbience = False, moonPosition = (0, 0, 0), uniforms = Map.empty,
      atmosphere = None, sun = None, moon = None, stars = None\<rparr>"

definition initialize :: "Environment \<Rightarrow> EllipsoidModel \<Rightarrow> SimpleSkyNode \<Rightarrow> SimpleSkyNode" where
  \<comment> \<open>lines 200-245; the ellipsoid is \<open>srs->getGeographicSRS()->getEllipsoid()\<close>\<close>
  "initialize env ellipsoid s0 =
     (let lp = (0, 1, 0);
          l = \<lparr>lightNum = 0, position = (case lp of (x, y, z) \<Rightarrow> (x, y, z, 0)),
               ambient = (0.2, 0.2, 0.2, 2), diffuse = (1, 1, 1, 1), specular = (0, 0, 0, 1)\<rparr>;
          d = (defaultPerViewData s0)
                \<lparr>lightPos := lp, light := Some l,
                 lightPosUniform := Some (vec3_div lp (vec3_length lp))\<rparr>;
          s1 = s0\<lparr>defaultPerViewData := d, ellipsoidModel := Some ellipsoid,
                  innerRadius := radiusPolar ellipsoid\<rparr>;
          s2 = s1\<lparr>outerRadius := innerRadius s1 * 1.025\<rparr>;
          s3 = s2\<lparr>sunDistance := innerRadius s2 * 12000\<rparr>;
          s4 = makeSceneLighting s3;
          s5 = makeAtmosphere env ellipsoid s4;
          s6 = makeSun s5;
          s7 = makeMoon env s6;
          s8 = (if minStarMagnitude s7 < 0
                then (case magEnv env of
                        Some v \<Rightarrow> s7\<lparr>minStarMagnitude := v\<rparr>
                      | None \<Rightarrow> s7)
                else s7);
          s9 = makeStars env s8;
          s10 = s9\<lparr>autoAmbience := False\<rparr>
      in onSetDateTime s10)"

section \<open>Reachable states and the state a date/time leaves in a viewport\<close>

text \<open>
  The states of a node: as constructed, and after any sequence of \<open>attach\<close>, date/time
  and ephemeris changes, visibility changes, traversals, and direct settings of the sun
  or moon position (for all views or for one). The overload of \<open>setSunPosition\<close> that
  takes a latitude and a longitude (lines 513-527) calls the one below with the local
  up vector and is an instance of it.
\<close>

inductive reachable :: "SimpleSkyNode \<Rightarrow> bool" where
  r_init: "reachable (initialize env ellipsoid (constructed dt eph sunVis moonVis starsVis minMag file))"
| r_attach: "reachable s \<Longrightarrow> reachable (attach view lightNumber s)"
| r_date: "reachable s \<Longrightarrow> reachable (setDateTime dt s)"
| r_ephemeris: "reachable s \<Longrightarrow> reachable (setEphemeris eph s)"
| r_stars: "reachable s \<Longrightarrow> reachable (setStarsVisible v s)"
| r_moon: "reachable s \<Longrightarrow> reachable (setMoonVisible v s)"
| r_sun: "reachable s \<Longrightarrow> reachable (setSunVisible v s)"
| r_sun_position: "reachable s \<Longrightarrow> reachable (setSunPosition pos view s)"
| r_moon_position: "reachable s \<Longrightarrow> reachable (setMoonPosition pos view s)"
| r_traverse: "reachable s \<Longrightarrow> traverse cv s = Some (s', t) \<Longrightarrow> reachable s'"

text \<open>
  The part of a per-view state that \<open>onSetDateTime\<close> writes: the date, the light
  position (vector, light, uniform, sun transform), the moon matrix and transform, the
  star matrix and transform.
\<close>

type_synonym DateState =
  "DateTime option \<times> Vec3 \<times> Vec4 option \<times> Vec3 option \<times> Matrixd option \<times>
   Matrixd \<times> Matrixd option \<times> Matrixd \<times> Matrixd option"

definition date_state :: "PerViewData \<Rightarrow> DateState" where
  "date_state d =
     (date d, lightPos d, map_option position (light d), lightPosUniform d,
      map_option matrix (sunXform d), moonMatrix d, map_option matrix (moonXform d),
      starsMatrix d, map_option matrix (starsXform d))"

definition applied_date_state :: "SimpleSkyNode \<Rightarrow> DateState" where
  \<comment> \<open>what \<open>onSetDateTime\<close> leaves in an entry that has its light, uniform and transforms\<close>
  "applied_date_state s =
     (let dt = dateTime s;
          sunv = normalize (getSunPositionECEF (ephemeris s) dt);
          moonMat = (case getMoonPositionECEF (ephemeris s) dt of (x, y, z) \<Rightarrow> MatTranslate x y z);
          starsMat = MatRotate (- rot_z dt) 0 0 1
      in (Some dt, sunv,
          Some (case sunv of (x, y, z) \<Rightarrow> (x, y, z, 0)),
          Some (vec3_div sunv (vec3_length sunv)),
          Some (case sunv of (x, y, z) \<Rightarrow>
                  MatTranslate (sunDistance s * x) (sunDistance s * y) (sunDistance s * z)),
          moonMat, Some moonMat, starsMat, Some starsMat))"

definition apply_date :: "SimpleSkyNode \<Rightarrow> PerViewData \<Rightarrow> PerViewData" where
  \<comment> \<open>what one call of \<open>onSetDateTime\<close> does to one entry of the map: the sun position,
      the moon position, the star matrix and the date, in that order\<close>
  "apply_date s d =
     set_stars (MatRotate (- rot_z (dateTime s)) 0 0 1) (dateTime s)
       (setMoonPosition_data (getMoonPositionECEF (ephemeris s) (dateTime s))
          (setSunPosition_data (sunDistance s)
             (normalize (getSunPositionECEF (ephemeris s) (dateTime s))) d))"

definition entry_pre :: "PerViewData \<Rightarrow> bool" where
  \<comment> \<open>an entry as \<open>attach\<close> makes it: light, uniform, container and transforms are there\<close>
  "entry_pre d =
     (light d \<noteq> None \<and> lightPosUniform d \<noteq> None \<and> cullContainer d \<noteq> None
      \<and> sunXform d \<noteq> None \<and> moonXform d \<noteq> None \<and> starsXform d \<noteq> None)"

text \<open>
  The part of it that no other function writes: the date and the star matrix.
\<close>

type_synonym StarsState = "DateTime option \<times> Matrixd \<times> Matrixd option"

definition stars_state :: "PerViewData \<Rightarrow> StarsState" where
  "stars_state d = (date d, starsMatrix d, map_option matrix (starsXform d))"

definition applied_stars_state :: "SimpleSkyNode \<Rightarrow> StarsState" where
  "applied_stars_state s =
     (Some (dateTime s), MatRotate (- rot_z (dateTime s)) 0 0 1,
      Some (MatRotate (- rot_z (dateTime s)) 0 0 1))"

definition entry_ok :: "SimpleSkyNode \<Rightarrow> PerViewData \<Rightarrow> bool" where
  "entry_ok s d = (stars_state d = applied_stars_state s \<and> entry_pre d)"

text \<open>
  The invariant of the reachable states, \<open>node_inv\<close>: the node has its ellipsoid, the
  default state has its light and its uniform and has no star transform, no key of the
  map is the null pointer, and every entry has what \<open>attach\<close> gave it together with the
  date and the star matrix of the node's date/time. \<open>node_pre\<close> is the same without
  the date and the star matrix: what \<open>onSetDateTime\<close> needs in order to establish
  \<open>node_inv\<close>.
\<close>

definition node_pre :: "SimpleSkyNode \<Rightarrow> bool" where
  "node_pre s =
     (ellipsoidModel s \<noteq> None
      \<and> light (defaultPerViewData s) \<noteq> None
      \<and> lightPosUniform (defaultPerViewData s) \<noteq> None
      \<and> starsXform (defaultPerViewData s) = None
      \<and> list_all (\<lambda>(k, d). k \<noteq> 0 \<and> entry_pre d) (perViewData s))"

definition node_inv :: "SimpleSkyNode \<Rightarrow> bool" where
  "node_inv s =
     (ellipsoidModel s \<noteq> None
      \<and> light (defaultPerViewData s) \<noteq> None
      \<and> lightPosUniform (defaultPerViewData s) \<noteq> None
      \<and> starsXform (defaultPerViewData s) = None
      \<and> list_all (\<lambda>(k, d). k \<noteq> 0 \<and> entry_ok s d) (perViewData s))"

text \<open>
  The ambient intensity in the words of the specification: the linear map of the
  deviation from \<open>[-0.2, 0.75]\<close> onto \<open>[0.2, 0.92]\<close>.
\<close>

definition spec_ambient :: "real \<Rightarrow> real" where
  "spec_ambient deviation = 0.2 + (deviation - (- 0.2)) / (0.75 - (- 0.2)) * (0.92 - 0.2)"

section \<open>A sample node\<close>

text \<open>
  Concrete inputs on which the theorems below are instantiated: an ellipsoid with the
  WGS84 radii, a date at noon, an ephemeris with the sun on the x axis and the moon on
  the y axis, a two-line star table with a decoder that knows the two lines, and the
  node constructed from them.
\<close>

definition wgs84 :: EllipsoidModel where
  "wgs84 = \<lparr>radiusEquator = 6378137, radiusPolar = 6356752.3142\<rparr>"

definition noon :: DateTime where
  "noon = \<lparr>year = 2013, month = 6, day = 21, hours = 12\<rparr>"

definition sample_ephemeris :: Ephemeris where
  "sample_ephemeris =
     \<lparr>getSunPositionECEF = (\<lambda>dt. (149600000000, 0, 0)),
      getMoonPositionECEF = (\<lambda>dt. (0, 384400000, 0)),
      getECEFfromRADecl =
        (\<lambda>ra decl r. (r * cos decl * cos ra, r * cos decl * sin ra, r * sin decl))\<rparr>"

definition sirius_line :: string where
  "sirius_line = ''Sirius,1.767793,-0.291751,-1.44''"

definition vega_line :: string where
  "vega_line = ''Vega,4.873563,0.676902,0.03''"

definition sirius :: StarData where
  "sirius = \<lparr>name = ''Sirius'', right_ascension = 1.767793, declination = - 0.291751,
             magnitude = - 1.44\<rparr>"

definition vega :: StarData where
  "vega = \<lparr>name = ''Vega'', right_ascension = 4.873563, declination = 0.676902,
           magnitude = 0.03\<rparr>"

definition zero_star :: StarData where
  "zero_star = \<lparr>name = ''HR 1'', right_ascension = 0.023278, declination = 0.789065,
                magnitude = 0\<rparr>"

definition sample_decode :: StarDecoder where
  "sample_decode line = (if takeWhile (\<lambda>c. c \<noteq> CHR '','') line = ''Sirius'' then sirius else vega)"

definition sample_env :: Environment where
  "sample_env =
     \<lparr>conv = (\<lambda>em lat lon h.
               ((radiusEquator em + h) * cos lat * cos lon,
                (radiusEquator em + h) * cos lat * sin lon,
                (radiusPolar em + h) * sin lat)),
      magEnv = None,
      files = (\<lambda>path. None),
      s_defaultStarData = [sirius_line, vega_line],
      decode = sample_decode,
      moonImage = True\<rparr>"

definition sample_node :: SimpleSkyNode where
  "sample_node =
     initialize sample_env wgs84 (constructed noon sample_ephemeris True True True (- 1) None)"

section \<open>MeshFactory: vertex and index counts\<close>

lemma fold_body_verts:
  "length (verts (fold (ellipsoid_body cnv e hae gen lat lon seg y) xs g)) = length (verts g) + length xs"
  by (induction xs arbitrary: g) (simp_all add: ellipsoid_body_def Let_def split: option.splits)

lemma fold_body_el:
  "length (el (fold (ellipsoid_body cnv e hae gen lat lon seg y) xs g)) =
     length (el g) + (if y < lat then 6 * length xs else 0)"
  by (induction xs arbitrary: g) (simp_all add: ellipsoid_body_def Let_def split: option.splits)

lemma fold_rows_verts:
  "length (verts (fold (\<lambda>y. fold (ellipsoid_body cnv e hae gen lat lon seg y) xs) ys g)) =
     length (verts g) + length ys * length xs"
  by (induction ys arbitrary: g) (simp_all add: fold_body_verts)

lemma fold_rows_el:
  "length (el (fold (\<lambda>y. fold (ellipsoid_body cnv e hae gen lat lon seg y) xs) ys g)) =
     length (el g) + 6 * length xs * length (filter (\<lambda>y. y < lat) ys)"
  by (induction ys arbitrary: g) (simp_all add: fold_body_el)

lemma ellipsoid_loops_verts:
  "length (verts (ellipsoid_loops cnv n e r gen)) = (n + 1) * (2 * n)"
  unfolding ellipsoid_loops_def Let_def fold_rows_verts by simp

lemma ellipsoid_loops_el:
  "length (el (ellipsoid_loops cnv n e r gen)) = n * (2 * n) * 6"
  unfolding ellipsoid_loops_def Let_def fold_rows_el by simp

text \<open>
  Claim C6. For every ellipsoid, outer radius and conversion function, and with or
  without texture coordinates, the ellipsoid mesh built with \<open>latSegments = 100\<close> and
  \<open>lonSegments = 2 * latSegments\<close> has \<open>(100 + 1) * (2 * 100) = 20200\<close> vertices and
  \<open>100 * (2 * 100) * 6 = 120000\<close> entries in its triangle-list index array: every
  latitude/longitude quad below the last row contributes six indices, the seam column
  included.
\<close>

theorem ellipsoid_mesh_counts: "length (verts (s_makeEllipsoidGeometry cnv e r gen)) = (100 + 1) * (2 * 100)
  \<and> length (verts (s_makeEllipsoidGeometry cnv e r gen)) = 20200
  \<and> length (el (s_makeEllipsoidGeometry cnv e r gen)) = 100 * (2 * 100) * 6
  \<and> length (el (s_makeEllipsoidGeometry cnv e r gen)) = 120000"
  by (simp add: s_makeEllipsoidGeometry_def ellipsoid_loops_verts ellipsoid_loops_el)

lemma fold_disc_verts:
  "verts (fold (disc_body s d r) xs g) =
     verts g @ map (\<lambda>i. (r * cos (DegreesToRadians (d * real i)),
                          r * sin (DegreesToRadians (d * real i)), 0)) xs"
  by (induction xs arbitrary: g) (simp_all add: disc_body_def Let_def)

lemma fold_disc_el:
  "el (fold (disc_body s d r) xs g) =
     el g @ concat (map (\<lambda>i. [0, of_nat (1 + (if int i < int s - 1 then i + 1 else 0)),
                                of_nat (1 + i)]) xs)"
  by (induction xs arbitrary: g) (simp_all add: disc_body_def Let_def)

lemma length_concat_triples:
  "(\<And>k. length (f k) = 3) \<Longrightarrow> length (concat (map f [0..<n])) = 3 * n"
  by (induction n) simp_all

lemma nth_concat_triples:
  assumes len: "\<And>k. length (f k) = 3" and i: "i < n" and j: "j < 3"
  shows "concat (map f [0..<n]) ! (3 * i + j) = f i ! j"
  using i
proof (induction n)
  case 0
  then show ?case by simp
next
  case (Suc n)
  have L: "length (concat (map f [0..<n])) = 3 * n"
    by (rule length_concat_triples) (rule len)
  show ?case
  proof (cases "i < n")
    case True
    with Suc.IH have "concat (map f [0..<n]) ! (3 * i + j) = f i ! j" by simp
    moreover from True j have "3 * i + j < 3 * n" by simp
    ultimately show ?thesis by (simp add: nth_append L)
  next
    case False
    with Suc.prems have "i = n" by simp
    then show ?thesis using j by (simp add: nth_append L)
  qed
qed

lemma disc_loop_verts:
  "verts (disc_loop s r) =
     (0, 0, 0) # map (\<lambda>i. (r * cos (DegreesToRadians (360 / real s * real i)),
                           r * sin (DegreesToRadians (360 / real s * real i)), 0)) [0..<s]"
  unfolding disc_loop_def Let_def fold_disc_verts by simp

lemma disc_loop_el:
  "el (disc_loop s r) =
     concat (map (\<lambda>i. [0, of_nat (1 + (if int i < int s - 1 then i + 1 else 0)),
                        of_nat (1 + i)]) [0..<s])"
  unfolding disc_loop_def Let_def fold_disc_el by simp

lemma disc_loop_triangle:
  assumes "i < s"
  shows "el (disc_loop s r) ! (3 * i) = 0"
    and "el (disc_loop s r) ! (3 * i + 1) = of_nat (1 + (if int i < int s - 1 then i + 1 else 0))"
    and "el (disc_loop s r) ! (3 * i + 2) = of_nat (1 + i)"
  using nth_concat_triples [where f = "\<lambda>i. [0 :: ushort, of_nat (1 + (if int i < int s - 1 then i + 1 else 0)), of_nat (1 + i)]" and n = s and i = i and j = 0]
        nth_concat_triples [where f = "\<lambda>i. [0 :: ushort, of_nat (1 + (if int i < int s - 1 then i + 1 else 0)), of_nat (1 + i)]" and n = s and i = i and j = 1]
        nth_concat_triples [where f = "\<lambda>i. [0 :: ushort, of_nat (1 + (if int i < int s - 1 then i + 1 else 0)), of_nat (1 + i)]" and n = s and i = i and j = 2]
        assms
  by (simp_all add: disc_loop_el)

lemma unat_ushort_small: "n < 65536 \<Longrightarrow> unat (of_nat n :: ushort) = n"
  by (simp add: unat_of_nat)

lemma disc_loop_triangle_unat:
  assumes "i < s" and "s < 65535"
  shows "unat (el (disc_loop s r) ! (3 * i)) = 0"
    and "unat (el (disc_loop s r) ! (3 * i + 1)) = 1 + (if int i < int s - 1 then i + 1 else 0)"
    and "unat (el (disc_loop s r) ! (3 * i + 2)) = 1 + i"
proof -
  show "unat (el (disc_loop s r) ! (3 * i)) = 0"
    by (simp only: disc_loop_triangle(1) [OF assms(1)] unsigned_0)
  have "1 + (if int i < int s - 1 then i + 1 else 0) < 65536"
    using assms by simp
  then show "unat (el (disc_loop s r) ! (3 * i + 1)) = 1 + (if int i < int s - 1 then i + 1 else 0)"
    by (simp only: disc_loop_triangle(2) [OF assms(1)] unat_ushort_small)
  have "1 + i < 65536" using assms by simp
  then show "unat (el (disc_loop s r) ! (3 * i + 2)) = 1 + i"
    by (simp only: disc_loop_triangle(3) [OF assms(1)] unat_ushort_small)
qed

text \<open>
  Claim C9. For every radius the disc mesh has \<open>1 + 48\<close> vertices, the centre
  \<open>(0, 0, 0)\<close> first and then perimeter vertex \<open>i\<close> at
  \<open>radius * (cos \<theta>, sin \<theta>, 0)\<close> with \<open>\<theta>\<close> the angle of \<open>i * (360 / 48)\<close> degrees, and
  \<open>48\<close> triangles (\<open>3 * 48\<close> indices): triangle \<open>i\<close> is the centre (index \<open>0\<close>),
  perimeter vertex \<open>i + 1\<close> (perimeter vertex \<open>0\<close> for the last segment) and perimeter
  vertex \<open>i\<close>, perimeter vertex \<open>j\<close> having index \<open>1 + j\<close>.
\<close>

theorem disc_fan:
  "length (verts (s_makeDiscGeometry r)) = 1 + 48
   \<and> length (el (s_makeDiscGeometry r)) = 3 * 48
   \<and> verts (s_makeDiscGeometry r) ! 0 = (0, 0, 0)
   \<and> (\<forall>i<48. verts (s_makeDiscGeometry r) ! (1 + i) =
         (r * cos (DegreesToRadians (360 / 48 * real i)),
          r * sin (DegreesToRadians (360 / 48 * real i)), 0))
   \<and> (\<forall>i<48. unat (el (s_makeDiscGeometry r) ! (3 * i)) = 0
          \<and> unat (el (s_makeDiscGeometry r) ! (3 * i + 1)) = 1 + (if i < 47 then i + 1 else 0)
          \<and> unat (el (s_makeDiscGeometry r) ! (3 * i + 2)) = 1 + i)"
proof -
  have v: "length (verts (s_makeDiscGeometry r)) = 1 + 48"
    by (simp add: s_makeDiscGeometry_def disc_loop_verts)
  have e: "length (el (s_makeDiscGeometry r)) = 3 * 48"
    unfolding s_makeDiscGeometry_def disc_loop_el
    by (subst length_concat_triples) simp_all
  have c: "verts (s_makeDiscGeometry r) ! 0 = (0, 0, 0)"
    by (simp add: s_makeDiscGeometry_def disc_loop_verts)
  have p: "verts (s_makeDiscGeometry r) ! (1 + i) =
         (r * cos (DegreesToRadians (360 / 48 * real i)),
          r * sin (DegreesToRadians (360 / 48 * real i)), 0)" if "i < 48" for i
    using that unfolding s_makeDiscGeometry_def disc_loop_verts by simp
  have t: "unat (el (s_makeDiscGeometry r) ! (3 * i)) = 0
          \<and> unat (el (s_makeDiscGeometry r) ! (3 * i + 1)) = 1 + (if i < 47 then i + 1 else 0)
          \<and> unat (el (s_makeDiscGeometry r) ! (3 * i + 2)) = 1 + i" if "i < 48" for i
  proof -
    have "(48::nat) < 65535" by simp
    note tri = disc_loop_triangle_unat [OF that this, of r]
    have "(if int i < int 48 - 1 then i + 1 else 0) = (if i < 47 then i + 1 else 0)"
      by simp
    with tri show ?thesis unfolding s_makeDiscGeometry_def by simp
  qed
  from v e c p t show ?thesis by blast
qed

theorem disc_fan_witness:
  "(47::nat) < 48 \<and> unat (el (s_makeDiscGeometry 2) ! 141) = 0
     \<and> unat (el (s_makeDiscGeometry 2) ! 142) = 1
     \<and> unat (el (s_makeDiscGeometry 2) ! 143) = 48
     \<and> verts (s_makeDiscGeometry 2) ! 1 = (2, 0, 0)"
proof -
  have h: "(47::nat) < 48" and h0: "(0::nat) < 48" by simp_all
  from disc_fan [of 2]
  have t: "\<forall>i<48. unat (el (s_makeDiscGeometry 2) ! (3 * i)) = 0
          \<and> unat (el (s_makeDiscGeometry 2) ! (3 * i + 1)) = 1 + (if i < 47 then i + 1 else 0)
          \<and> unat (el (s_makeDiscGeometry 2) ! (3 * i + 2)) = 1 + i"
    and p: "\<forall>i<48. verts (s_makeDiscGeometry 2) ! (1 + i) =
         (2 * cos (DegreesToRadians (360 / 48 * real i)),
          2 * sin (DegreesToRadians (360 / 48 * real i)), 0)"
    by blast+
  from t h have "unat (el (s_makeDiscGeometry 2) ! (3 * 47)) = 0
          \<and> unat (el (s_makeDiscGeometry 2) ! (3 * 47 + 1)) = 1 + (if (47::nat) < 47 then 47 + 1 else 0)
          \<and> unat (el (s_makeDiscGeometry 2) ! (3 * 47 + 2)) = 1 + 47"
    by blast
  moreover from p h0 have "verts (s_makeDiscGeometry 2) ! (1 + 0) =
         (2 * cos (DegreesToRadians (360 / 48 * real 0)),
          2 * sin (DegreesToRadians (360 / 48 * real 0)), 0)"
    by blast
  ultimately show ?thesis by (simp add: DegreesToRadians_def)
qed

section \<open>The star catalogue filter\<close>

lemma push_pop_eq:
  "push_pop m x out = (if magnitude x < m then out else out @ [x])"
  by (simp add: push_pop_def Let_def)

lemma fold_push_pop:
  "fold (\<lambda>l out. push_pop m (dec l) out) ls acc =
     acc @ filter (\<lambda>s. m \<le> magnitude s) (map dec ls)"
  by (induction ls arbitrary: acc) (simp_all add: push_pop_eq not_less)

lemma fold_push_pop_skip:
  "fold (\<lambda>l out. if l = [] \<or> hd l = CHR ''#'' then out else push_pop m (dec l) out) ls acc =
     acc @ filter (\<lambda>s. m \<le> magnitude s)
             (map dec (filter (\<lambda>l. \<not> (l = [] \<or> hd l = CHR ''#'')) ls))"
  by (induction ls arbitrary: acc) (simp_all add: push_pop_eq not_less)

lemma getDefaultStars_filter:
  "getDefaultStars dec m table = filter (\<lambda>s. m \<le> magnitude s) (map dec table)"
  by (simp add: getDefaultStars_def fold_push_pop)

lemma parseStarFile_filter:
  "parseStarFile dec m (Some ls) =
     (True, filter (\<lambda>s. m \<le> magnitude s)
              (map dec (filter (\<lambda>l. \<not> (l = [] \<or> hd l = CHR ''#'')) ls)))"
  by (simp add: parseStarFile_def fold_push_pop_skip)

text \<open>
  Claim C4, as amended. For every decoder, table, file and threshold \<open>m\<close>, the records
  kept by \<open>getDefaultStars\<close> and by \<open>parseStarFile\<close> are exactly the decoded records
  with \<open>magnitude \<ge> m\<close>, in input order (for a file: of the lines that are neither
  empty nor comments); so every record kept has \<open>magnitude \<ge> m\<close>. The threshold
  \<open>-1.0\<close> is a threshold like any other: all records are kept when none of them has a
  magnitude below \<open>-1.0\<close>.
\<close>

theorem star_filter:
  "getDefaultStars dec m table = filter (\<lambda>s. m \<le> magnitude s) (map dec table)
   \<and> parseStarFile dec m (Some ls) =
       (True, filter (\<lambda>s. m \<le> magnitude s)
                (map dec (filter (\<lambda>l. \<not> (l = [] \<or> hd l = CHR ''#'')) ls)))
   \<and> parseStarFile dec m None = (False, [])
   \<and> (\<forall>s \<in> set (getDefaultStars dec m table). m \<le> magnitude s)
   \<and> (\<forall>s \<in> set (snd (parseStarFile dec m fl)). m \<le> magnitude s)
   \<and> ((\<forall>l \<in> set table. - 1 \<le> magnitude (dec l)) \<longrightarrow>
        getDefaultStars dec (- 1) table = map dec table)"
proof -
  have a: "\<forall>s \<in> set (snd (parseStarFile dec m fl)). m \<le> magnitude s"
    by (cases fl) (simp_all add: parseStarFile_filter, simp add: parseStarFile_def)
  have b: "(\<forall>l \<in> set table. - 1 \<le> magnitude (dec l)) \<longrightarrow>
        getDefaultStars dec (- 1) table = map dec table"
    by (simp add: getDefaultStars_filter filter_id_conv)
  show ?thesis
    using a b by (simp add: getDefaultStars_filter parseStarFile_filter) (simp add: parseStarFile_def)
qed

theorem star_filter_witness:
  "getDefaultStars sample_decode 0 [sirius_line, vega_line] = [vega]
   \<and> parseStarFile sample_decode 0 (Some [''# catalogue'', [], sirius_line, vega_line]) =
       (True, [vega])
   \<and> 0 \<le> magnitude vega
   \<and> - 1 \<le> magnitude (sample_decode vega_line)
   \<and> getDefaultStars sample_decode (- 1) [vega_line] = map sample_decode [vega_line]"
proof -
  have v: "sample_decode vega_line = vega" and s: "sample_decode sirius_line = sirius"
    by (simp_all add: sample_decode_def vega_line_def sirius_line_def)
  have m: "magnitude vega = 0.03" "magnitude sirius = - 1.44"
    by (simp_all add: vega_def sirius_def)
  have ne: "sirius_line \<noteq> []" "hd sirius_line \<noteq> CHR ''#''"
    "vega_line \<noteq> []" "hd vega_line \<noteq> CHR ''#''"
    by (simp_all add: vega_line_def sirius_line_def)
  have h: "\<forall>l \<in> set [vega_line]. - 1 \<le> magnitude (sample_decode l)"
    by (simp add: v m)
  note t = star_filter [of sample_decode 0 "[sirius_line, vega_line]"
      "[''# catalogue'', [], sirius_line, vega_line]" "Some [sirius_line, vega_line]"]
  note u = star_filter [of sample_decode "- 1" "[vega_line]" "[]" None]
  from u h have "getDefaultStars sample_decode (- 1) [vega_line] = map sample_decode [vega_line]"
    by blast
  moreover from t have "getDefaultStars sample_decode 0 [sirius_line, vega_line] = [vega]"
    by (simp add: v s m)
  moreover from t have "parseStarFile sample_decode 0
      (Some [''# catalogue'', [], sirius_line, vega_line]) = (True, [vega])"
    by (simp add: v s m ne)
  ultimately show ?thesis by (simp add: v m)
qed

text \<open>
  The claim as written fails: with the threshold \<open>-1.0\<close> the record of Sirius, of
  magnitude \<open>-1.44\<close>, is dropped.
\<close>

theorem star_filter_counterexample:
  "getDefaultStars sample_decode (- 1) [sirius_line] = []
   \<and> map sample_decode [sirius_line] = [sirius]
   \<and> snd (parseStarFile sample_decode (- 1) (Some [sirius_line])) = []"
  by (simp add: getDefaultStars_def parseStarFile_def push_pop_def sample_decode_def
      sirius_line_def sirius_def)

section \<open>The divisor of the star colours\<close>

lemma DBL_MIN_pos: "0 < DBL_MIN"
  by (simp add: DBL_MIN_def)

lemma DBL_MIN_le_MAX: "DBL_MIN < DBL_MAX"
proof -
  have "DBL_MIN \<le> 1" by (simp add: DBL_MIN_def)
  moreover have "(1::real) < DBL_MAX"
  proof -
    have "(1::real) \<le> 2 - 1 / 2 ^ 52" by simp
    moreover have "(1::real) < 2 ^ 1023" by simp
    ultimately have "(1::real) * 1 < (2 - 1 / 2 ^ 52) * 2 ^ 1023"
      by (intro mult_le_less_imp_less) simp_all
    then show ?thesis by (simp add: DBL_MAX_def)
  qed
  ultimately show ?thesis by simp
qed

lemma fold_star_loop1:
  "fold (\<lambda>p (cs, minMag, maxMag).
             (cs @ [f (right_ascension p) (declination p) r],
              (if magnitude p < minMag then magnitude p else minMag),
              (if magnitude p > maxMag then magnitude p else maxMag)))
          sts (cs0, lo, hi) =
     (cs0 @ map (\<lambda>p. f (right_ascension p) (declination p) r) sts,
      fold (\<lambda>p lo. min (magnitude p) lo) sts lo,
      fold (\<lambda>p hi. max (magnitude p) hi) sts hi)"
  by (induction sts arbitrary: cs0 lo hi) (auto simp: min_def max_def)

lemma star_divisor_single:
  "star_divisor f r [p] = max (magnitude p) DBL_MIN - min (magnitude p) DBL_MAX"
  by (simp add: star_divisor_def star_loop1_def min_def max_def)

lemma fold_min_le_init: "fold (\<lambda>p lo. min (magnitude p) lo) sts lo \<le> lo"
proof (induction sts arbitrary: lo)
  case Nil
  show ?case by simp
next
  case (Cons q sts)
  have "fold (\<lambda>p lo. min (magnitude p) lo) sts (min (magnitude q) lo) \<le> min (magnitude q) lo"
    by (rule Cons.IH)
  then show ?case by simp
qed

lemma fold_min_le:
  "p \<in> set sts \<Longrightarrow> fold (\<lambda>p lo. min (magnitude p) lo) sts lo \<le> magnitude p"
proof (induction sts arbitrary: lo)
  case Nil
  then show ?case by simp
next
  case (Cons q sts)
  show ?case
  proof (cases "p = q")
    case True
    from fold_min_le_init [of sts "min (magnitude q) lo"] show ?thesis by (simp add: True)
  next
    case False
    with Cons.prems have "p \<in> set sts" by simp
    from Cons.IH [OF this] show ?thesis by simp
  qed
qed

lemma fold_max_ge_init: "hi \<le> fold (\<lambda>p hi. max (magnitude p) hi) sts hi"
proof (induction sts arbitrary: hi)
  case Nil
  show ?case by simp
next
  case (Cons q sts)
  have "max (magnitude q) hi \<le> fold (\<lambda>p hi. max (magnitude p) hi) sts (max (magnitude q) hi)"
    by (rule Cons.IH)
  then show ?case by simp
qed

lemma fold_max_ge:
  "p \<in> set sts \<Longrightarrow> magnitude p \<le> fold (\<lambda>p hi. max (magnitude p) hi) sts hi"
proof (induction sts arbitrary: hi)
  case Nil
  then show ?case by simp
next
  case (Cons q sts)
  show ?case
  proof (cases "p = q")
    case True
    from fold_max_ge_init [of "max (magnitude q) hi" sts] show ?thesis by (simp add: True)
  next
    case False
    with Cons.prems have "p \<in> set sts" by simp
    from Cons.IH [OF this] show ?thesis by simp
  qed
qed

lemma star_divisor_distinct:
  assumes "p \<in> set sts" "q \<in> set sts" "magnitude p < magnitude q"
  shows "0 < star_divisor f r sts"
proof -
  have "star_divisor f r sts =
      fold (\<lambda>p hi. max (magnitude p) hi) sts DBL_MIN - fold (\<lambda>p lo. min (magnitude p) lo) sts DBL_MAX"
    by (simp add: star_divisor_def star_loop1_def fold_star_loop1)
  moreover have "magnitude q \<le> fold (\<lambda>p hi. max (magnitude p) hi) sts DBL_MIN"
    by (rule fold_max_ge [OF assms(2)])
  moreover have "fold (\<lambda>p lo. min (magnitude p) lo) sts DBL_MAX \<le> magnitude p"
    by (rule fold_min_le [OF assms(1)])
  ultimately show ?thesis using assms(3) by simp
qed

lemma star_divisor_single_zero:
  "DBL_MIN \<le> magnitude p \<Longrightarrow> magnitude p \<le> DBL_MAX \<Longrightarrow> star_divisor f r [p] = 0"
  by (simp add: star_divisor_single)

text \<open>
  Claim C10. The colour channel of a star is
  \<open>(magnitude - minMag) / (maxMag - minMag)\<close> with no test of the divisor. A single
  record whose magnitude lies between \<open>DBL_MIN\<close> and \<open>DBL_MAX\<close> makes the divisor zero
  (\<open>star_divisor_single_zero\<close>), and two records of different magnitudes make it
  positive (\<open>star_divisor_distinct\<close>). But \<open>maxMag\<close> starts at \<open>DBL_MIN\<close>, the smallest
  positive double, so it is not the largest magnitude of a list whose magnitudes are
  all zero or negative. For a single record of magnitude \<open>0\<close> the loop ends with
  \<open>minMag = 0\<close> and \<open>maxMag = DBL_MIN\<close>: the divisor is \<open>DBL_MIN\<close>, not zero, and the
  colour channel is \<open>0\<close>. For the single record of Sirius (magnitude \<open>-1.44\<close>) it
  ends with \<open>minMag = -1.44\<close> and \<open>maxMag = DBL_MIN\<close>: the divisor is
  \<open>DBL_MIN + 1.44\<close> and the colour channel is \<open>0\<close>.
\<close>

theorem single_star_divisor:
  "star_loop1 f r [zero_star] = ([f 0.023278 0.789065 r], 0, DBL_MIN)
   \<and> star_divisor f r [zero_star] = DBL_MIN
   \<and> star_divisor f r [zero_star] \<noteq> 0
   \<and> colors (buildStarGeometry f r [zero_star]) = [Some 0]
   \<and> star_loop1 f r [sirius] = ([f 1.767793 (- 0.291751) r], - 1.44, DBL_MIN)
   \<and> star_divisor f r [sirius] = DBL_MIN + 1.44
   \<and> star_divisor f r [sirius] \<noteq> 0
   \<and> colors (buildStarGeometry f r [sirius]) = [Some 0]"
proof -
  have z: "star_loop1 f r [zero_star] = ([f 0.023278 0.789065 r], 0, DBL_MIN)"
    using DBL_MIN_pos DBL_MIN_le_MAX by (simp add: star_loop1_def zero_star_def)
  have s: "star_loop1 f r [sirius] = ([f 1.767793 (- 0.291751) r], - 1.44, DBL_MIN)"
    using DBL_MIN_pos DBL_MIN_le_MAX by (simp add: star_loop1_def sirius_def)
  have m: "magnitude zero_star = 0" "magnitude sirius = - 1.44"
    by (simp_all add: zero_star_def sirius_def)
  from DBL_MIN_pos have p: "DBL_MIN \<noteq> 0" "DBL_MIN + 1.44 \<noteq> 0" by simp_all
  show ?thesis
    using p by (simp add: star_divisor_def buildStarGeometry_def star_color_def z s m)
qed

section \<open>The map of per-view states\<close>

lemma map_find_map_all: "map_find (map_all f m) v = map_option f (map_find m v)"
  by (induction m) (auto simp: map_find_def map_all_def)

lemma map_find_map_modify:
  "map_find (map_modify v f m) v' = (if v' = v then map_option f (map_find m v) else map_find m v')"
  by (induction m) (auto simp: map_find_def map_modify_def)

lemma length_map_all: "length (map_all f m) = length m"
  by (simp add: map_all_def)

lemma length_map_modify: "length (map_modify v f m) = length m"
  by (simp add: map_modify_def)

lemma keys_map_all: "map fst (map_all f m) = map fst m"
  by (induction m) (auto simp: map_all_def)

lemma keys_map_modify: "map fst (map_modify v f m) = map fst m"
  by (induction m) (auto simp: map_modify_def)

lemma map_all_map_all: "map_all f (map_all g m) = map_all (\<lambda>d. f (g d)) m"
  by (induction m) (auto simp: map_all_def)

lemma map_find_map_insert:
  "map_find m k = None \<Longrightarrow>
   map_find (map_insert k d m) k' = (if k' = k then Some d else map_find m k')"
proof (induction m)
  case Nil
  then show ?case by (simp add: map_find_def)
next
  case (Cons e m)
  obtain a b where e: "e = (a, b)" by (cases e)
  from Cons.prems have ne: "k \<noteq> a" and n: "map_find m k = None"
    by (auto simp: e map_find_def split: if_splits)
  from Cons.IH [OF n] show ?case
    using ne by (auto simp: e map_find_def)
qed

lemma map_index_found: "map_find m v = Some d \<Longrightarrow> map_index v m = m"
  by (simp add: map_index_def)

lemma map_find_map_index:
  "map_find (map_index v m) v' =
     (if v' = v then Some (case map_find m v of Some d \<Rightarrow> d | None \<Rightarrow> PerViewData0)
      else map_find m v')"
  by (cases "map_find m v") (simp_all add: map_index_def map_find_map_insert)

lemma list_all_map_all:
  "list_all (\<lambda>(k, d). P k d) (map_all f m) = list_all (\<lambda>(k, d). P k (f d)) m"
  by (induction m) (auto simp: map_all_def)

lemma list_all_map_modify:
  "list_all (\<lambda>(k, d). P k d) (map_modify v f m) =
     list_all (\<lambda>(k, d). P k (if k = v then f d else d)) m"
  by (induction m) (auto simp: map_modify_def split: if_splits)

lemma list_all_map_insert:
  "list_all P (map_insert k d m) = (P (k, d) \<and> list_all P m)"
proof (induction m)
  case Nil
  show ?case by simp
next
  case (Cons e m)
  obtain a b where e: "e = (a, b)" by (cases e)
  show ?case
  proof (cases "k < a")
    case True
    then show ?thesis by (simp add: e)
  next
    case False
    then show ?thesis using Cons.IH by (auto simp: e)
  qed
qed

lemma list_all_map_index:
  "list_all P (map_index v m) = ((map_find m v = None \<longrightarrow> P (v, PerViewData0)) \<and> list_all P m)"
  by (cases "map_find m v") (simp_all add: map_index_def list_all_map_insert)

lemma list_all_map_find:
  "list_all (\<lambda>(k, d). P k d) m \<Longrightarrow> map_find m v = Some d \<Longrightarrow> P v d"
  by (induction m) (auto simp: map_find_def split: if_splits)

lemma onSetDateTime_eq:
  assumes "ellipsoidModel s = Some em"
  shows "onSetDateTime s =
     s\<lparr>moonPosition := getMoonPositionECEF (ephemeris s) (dateTime s),
       defaultPerViewData :=
         (setMoonPosition_data (getMoonPositionECEF (ephemeris s) (dateTime s))
           (setSunPosition_data (sunDistance s)
             (normalize (getSunPositionECEF (ephemeris s) (dateTime s))) (defaultPerViewData s)))
         \<lparr>starsMatrix := MatRotate (- rot_z (dateTime s)) 0 0 1, date := Some (dateTime s)\<rparr>,
       perViewData := map_all (apply_date s) (perViewData s)\<rparr>"
  using assms
  by (simp add: onSetDateTime_def setSunPosition_def setMoonPosition_def Let_def
      map_all_map_all apply_date_def [abs_def])

lemma onSetDateTime_None: "ellipsoidModel s = None \<Longrightarrow> onSetDateTime s = s"
  by (simp add: onSetDateTime_def)

lemma ex_vec3: "\<exists>a b c. (v :: Vec3) = (a, b, c)"
  by (cases v) auto

lemma apply_date_state:
  "entry_pre d \<Longrightarrow> date_state (apply_date s d) = applied_date_state s"
  by (auto simp: entry_pre_def apply_date_def date_state_def applied_date_state_def
      set_stars_def setMoonPosition_data_def setSunPosition_data_def Let_def
      split: prod.splits)

lemma apply_date_pre:
  "entry_pre d \<Longrightarrow> entry_pre (apply_date s d)"
  by (auto simp: entry_pre_def apply_date_def
      set_stars_def setMoonPosition_data_def setSunPosition_data_def Let_def ex_vec3)

section \<open>The invariant of the reachable states\<close>

lemma entry_ok_imp_pre: "entry_ok s d \<Longrightarrow> entry_pre d"
  by (simp add: entry_ok_def)

lemma list_all_mono_pair:
  "list_all (\<lambda>(k, d). P k d) m \<Longrightarrow> (\<And>k d. P k d \<Longrightarrow> Q k d) \<Longrightarrow> list_all (\<lambda>(k, d). Q k d) m"
  by (induction m) auto

lemma node_inv_imp_pre: "node_inv s \<Longrightarrow> node_pre s"
  unfolding node_inv_def node_pre_def
  by (auto elim!: list_all_mono_pair dest: entry_ok_imp_pre)

lemma default_after_date:
  "light (setMoonPosition_data mp (setSunPosition_data sd sp d)) = None \<longleftrightarrow> light d = None"
  "lightPosUniform (setMoonPosition_data mp (setSunPosition_data sd sp d)) = None
     \<longleftrightarrow> lightPosUniform d = None"
  "starsXform (setMoonPosition_data mp (setSunPosition_data sd sp d)) = starsXform d"
  by (auto simp: setMoonPosition_data_def setSunPosition_data_def Let_def split: option.splits)

lemma applied_date_state_cong:
  "dateTime s' = dateTime s \<Longrightarrow> ephemeris s' = ephemeris s \<Longrightarrow> sunDistance s' = sunDistance s
   \<Longrightarrow> applied_date_state s' = applied_date_state s"
  by (simp add: applied_date_state_def)

lemma entry_ok_cong:
  "dateTime s' = dateTime s \<Longrightarrow> entry_ok s' d = entry_ok s d"
  by (simp add: entry_ok_def applied_stars_state_def)

lemma apply_date_stars:
  "starsXform d \<noteq> None \<Longrightarrow> stars_state (apply_date s d) = applied_stars_state s"
  by (auto simp: apply_date_def stars_state_def applied_stars_state_def
      set_stars_def setMoonPosition_data_def setSunPosition_data_def Let_def
      split: option.splits)

lemma apply_date_ok: "entry_pre d \<Longrightarrow> entry_ok s (apply_date s d)"
  using apply_date_pre [of d s] apply_date_stars [of d s]
  by (simp add: entry_ok_def entry_pre_def)

lemma onSetDateTime_inv:
  assumes "node_pre s"
  shows "node_inv (onSetDateTime s)"
proof -
  from assms obtain em where em: "ellipsoidModel s = Some em"
    by (auto simp: node_pre_def)
  let ?s' = "onSetDateTime s"
  have fr: "dateTime ?s' = dateTime s" "ephemeris ?s' = ephemeris s"
    "sunDistance ?s' = sunDistance s" "ellipsoidModel ?s' = ellipsoidModel s"
    by (simp_all add: onSetDateTime_eq [OF em])
  have pv: "perViewData ?s' = map_all (apply_date s) (perViewData s)"
    by (simp add: onSetDateTime_eq [OF em])
  have df: "light (defaultPerViewData ?s') \<noteq> None"
    "lightPosUniform (defaultPerViewData ?s') \<noteq> None"
    "starsXform (defaultPerViewData ?s') = None"
    using assms by (simp_all add: onSetDateTime_eq [OF em] default_after_date node_pre_def)
  from assms have all: "list_all (\<lambda>(k, d). k \<noteq> 0 \<and> entry_pre d) (perViewData s)"
    by (simp add: node_pre_def)
  have "list_all (\<lambda>(k, d). k \<noteq> 0 \<and> entry_ok s (apply_date s d)) (perViewData s)"
    by (rule list_all_mono_pair [OF all]) (simp add: apply_date_ok)
  then have "list_all (\<lambda>(k, d). k \<noteq> 0 \<and> entry_ok ?s' d) (perViewData ?s')"
    unfolding pv list_all_map_all entry_ok_cong [OF fr(1)] .
  with df fr(4) em show ?thesis by (simp add: node_inv_def)
qed

lemma node_pre_cong:
  "ellipsoidModel s' = ellipsoidModel s \<Longrightarrow> defaultPerViewData s' = defaultPerViewData s
   \<Longrightarrow> perViewData s' = perViewData s \<Longrightarrow> node_pre s' = node_pre s"
  by (simp add: node_pre_def)

lemma setDateTime_inv:
  assumes "node_inv s"
  shows "node_inv (setDateTime dt s)"
proof -
  have "node_pre (s\<lparr>dateTime := dt\<rparr>) = node_pre s"
    by (rule node_pre_cong) simp_all
  with assms have "node_pre (s\<lparr>dateTime := dt\<rparr>)"
    by (simp add: node_inv_imp_pre)
  then show ?thesis
    unfolding setDateTime_def by (rule onSetDateTime_inv)
qed

lemma setEphemeris_inv:
  assumes "node_inv s"
  shows "node_inv (setEphemeris eph s)"
proof -
  have "node_pre (s\<lparr>ephemeris := eph\<rparr>) = node_pre s"
    by (rule node_pre_cong) simp_all
  with assms have "node_pre (s\<lparr>ephemeris := eph\<rparr>)"
    by (simp add: node_inv_imp_pre)
  then show ?thesis
    unfolding setEphemeris_def onSetEphemeris_def by (rule onSetDateTime_inv)
qed

lemma attach_data_pre:
  "light (defaultPerViewData s) \<noteq> None \<Longrightarrow> lightPosUniform (defaultPerViewData s) \<noteq> None
   \<Longrightarrow> entry_pre (attach_data s n d)"
  by (auto simp: attach_data_def entry_pre_def Let_def)

lemma attach_inv:
  assumes "node_inv s"
  shows "node_inv (attach v n s)"
proof (cases "v = 0")
  case True
  with assms show ?thesis by (simp add: attach_def)
next
  case False
  from assms have pre: "node_pre s" by (rule node_inv_imp_pre)
  let ?m = "map_modify v (attach_data s n) (map_index v (perViewData s))"
  have ad: "entry_pre (attach_data s n d)" for d
    using pre by (intro attach_data_pre) (simp_all add: node_pre_def)
  from pre have all: "list_all (\<lambda>(k, d). k \<noteq> 0 \<and> entry_pre d) (perViewData s)"
    by (simp add: node_pre_def)
  have "list_all (\<lambda>(k, d). k \<noteq> 0 \<and> entry_pre d) ?m"
    unfolding list_all_map_modify list_all_map_index
  proof (intro conjI impI)
    show "case (v, PerViewData0) of (k, d) \<Rightarrow> k \<noteq> 0 \<and> entry_pre (if k = v then attach_data s n d else d)"
      using False ad by simp
    show "list_all (\<lambda>(k, d). k \<noteq> 0 \<and> entry_pre (if k = v then attach_data s n d else d)) (perViewData s)"
      by (rule list_all_mono_pair [OF all]) (simp add: ad)
  qed
  with pre have "node_pre (s\<lparr>perViewData := ?m\<rparr>)"
    by (simp add: node_pre_def)
  then have "node_inv (onSetDateTime (s\<lparr>perViewData := ?m\<rparr>))"
    by (rule onSetDateTime_inv)
  with False show ?thesis by (simp add: attach_def)
qed

lemma entry_ok_mask:
  "entry_ok s (d\<lparr>starsXform := set_mask b (starsXform d)\<rparr>) = entry_ok s d"
  "entry_ok s (d\<lparr>moonXform := set_mask b (moonXform d)\<rparr>) = entry_ok s d"
  "entry_ok s (d\<lparr>sunXform := set_mask b (sunXform d)\<rparr>) = entry_ok s d"
  by (cases "starsXform d"; cases "moonXform d"; cases "sunXform d";
      simp add: entry_ok_def entry_pre_def stars_state_def set_mask_def)+

lemma setStarsVisible_noop:
  "starsXform (defaultPerViewData s) = None \<Longrightarrow> setStarsVisible b s = s\<lparr>starsVisible := b\<rparr>"
  by (simp add: setStarsVisible_def onSetStarsVisible_def)

lemma node_inv_cong:
  assumes "dateTime s' = dateTime s" "ephemeris s' = ephemeris s" "sunDistance s' = sunDistance s"
    "ellipsoidModel s' = ellipsoidModel s" "defaultPerViewData s' = defaultPerViewData s"
    "perViewData s' = perViewData s"
  shows "node_inv s' = node_inv s"
  unfolding node_inv_def assms(4-6) entry_ok_cong [OF assms(1)] ..

lemma setStarsVisible_inv: "node_inv s \<Longrightarrow> node_inv (setStarsVisible b s)"
proof -
  assume inv: "node_inv s"
  then have "starsXform (defaultPerViewData s) = None" by (simp add: node_inv_def)
  then have "setStarsVisible b s = s\<lparr>starsVisible := b\<rparr>" by (rule setStarsVisible_noop)
  moreover have "node_inv (s\<lparr>starsVisible := b\<rparr>) = node_inv s"
    by (rule node_inv_cong) simp_all
  ultimately show ?thesis using inv by simp
qed

lemma map_all_alt: "map_all f m = map (\<lambda>(k, d). (k, f d)) m"
  by (simp add: map_all_def)

lemma map_modify_alt:
  "map_modify v f m = map (\<lambda>(k, d). (k, if k = v then f d else d)) m"
  by (induction m) (auto simp: map_modify_def)

lemma list_all_map_keyed:
  "list_all (\<lambda>(k, d). P k d) (map (\<lambda>(k, d). (k, g k d)) m) = list_all (\<lambda>(k, d). P k (g k d)) m"
  by (induction m) auto

lemma node_inv_entries:
  assumes inv: "node_inv s"
    and fr: "dateTime s' = dateTime s" "ellipsoidModel s' = ellipsoidModel s"
    and d1: "light (defaultPerViewData s') \<noteq> None"
      "lightPosUniform (defaultPerViewData s') \<noteq> None"
      "starsXform (defaultPerViewData s') = None"
    and pv: "perViewData s' = map (\<lambda>(k, d). (k, g k d)) (perViewData s)"
    and g: "\<And>k d. entry_ok s d \<Longrightarrow> entry_ok s (g k d)"
  shows "node_inv s'"
proof -
  from inv have all: "list_all (\<lambda>(k, d). k \<noteq> 0 \<and> entry_ok s d) (perViewData s)"
    by (simp add: node_inv_def)
  have "list_all (\<lambda>(k, d). k \<noteq> 0 \<and> entry_ok s (g k d)) (perViewData s)"
    by (rule list_all_mono_pair [OF all]) (simp add: g)
  then have "list_all (\<lambda>(k, d). k \<noteq> 0 \<and> entry_ok s' d) (perViewData s')"
    unfolding pv list_all_map_keyed entry_ok_cong [OF fr(1)] .
  with inv show ?thesis by (simp add: node_inv_def fr d1)
qed

lemma setMoonVisible_inv:
  assumes "node_inv s"
  shows "node_inv (setMoonVisible b s)"
proof (cases "moonXform (defaultPerViewData s)")
  case None
  then have "setMoonVisible b s = s\<lparr>moonVisible := b\<rparr>"
    by (simp add: setMoonVisible_def onSetMoonVisible_def)
  moreover have "node_inv (s\<lparr>moonVisible := b\<rparr>) = node_inv s"
    by (rule node_inv_cong) simp_all
  ultimately show ?thesis using assms by simp
next
  case (Some xf)
  from assms have df: "light (defaultPerViewData s) \<noteq> None"
    "lightPosUniform (defaultPerViewData s) \<noteq> None" "starsXform (defaultPerViewData s) = None"
    by (simp_all add: node_inv_def)
  show ?thesis
    by (rule node_inv_entries [OF assms,
          where g = "\<lambda>k d. d\<lparr>moonXform := set_mask b (moonXform d)\<rparr>"])
       (simp_all add: setMoonVisible_def onSetMoonVisible_def Some entry_ok_mask map_all_alt df)
qed

lemma setSunVisible_inv:
  assumes "node_inv s"
  shows "node_inv (setSunVisible b s)"
proof (cases "sunXform (defaultPerViewData s)")
  case None
  then have "setSunVisible b s = s\<lparr>sunVisible := b\<rparr>"
    by (simp add: setSunVisible_def onSetSunVisible_def)
  moreover have "node_inv (s\<lparr>sunVisible := b\<rparr>) = node_inv s"
    by (rule node_inv_cong) simp_all
  ultimately show ?thesis using assms by simp
next
  case (Some xf)
  from assms have df: "light (defaultPerViewData s) \<noteq> None"
    "lightPosUniform (defaultPerViewData s) \<noteq> None" "starsXform (defaultPerViewData s) = None"
    by (simp_all add: node_inv_def)
  show ?thesis
    by (rule node_inv_entries [OF assms,
          where g = "\<lambda>k d. d\<lparr>sunXform := set_mask b (sunXform d)\<rparr>"])
       (simp_all add: setSunVisible_def onSetSunVisible_def Some entry_ok_mask map_all_alt df)
qed

lemma sun_data_frame:
  "light (setSunPosition_data sd pos d) = None \<longleftrightarrow> light d = None"
  "lightPosUniform (setSunPosition_data sd pos d) = None \<longleftrightarrow> lightPosUniform d = None"
  "sunXform (setSunPosition_data sd pos d) = None \<longleftrightarrow> sunXform d = None"
  "cullContainer (setSunPosition_data sd pos d) = cullContainer d"
  "moonXform (setSunPosition_data sd pos d) = moonXform d"
  "starsXform (setSunPosition_data sd pos d) = starsXform d"
  "stars_state (setSunPosition_data sd pos d) = stars_state d"
  by (auto simp: setSunPosition_data_def stars_state_def Let_def split: option.splits)

lemma moon_data_frame:
  "light (setMoonPosition_data pos d) = light d"
  "lightPosUniform (setMoonPosition_data pos d) = lightPosUniform d"
  "sunXform (setMoonPosition_data pos d) = sunXform d"
  "cullContainer (setMoonPosition_data pos d) = cullContainer d"
  "moonXform (setMoonPosition_data pos d) = None \<longleftrightarrow> moonXform d = None"
  "starsXform (setMoonPosition_data pos d) = starsXform d"
  "stars_state (setMoonPosition_data pos d) = stars_state d"
  by (auto simp: setMoonPosition_data_def stars_state_def Let_def split: option.splits)

lemma entry_ok_sun_moon:
  "entry_ok s d \<Longrightarrow> entry_ok s (setSunPosition_data sd pos d)"
  "entry_ok s d \<Longrightarrow> entry_ok s (setMoonPosition_data pos d)"
  by (simp_all add: entry_ok_def entry_pre_def sun_data_frame moon_data_frame)

lemma setSunPosition_inv:
  assumes "node_inv s"
  shows "node_inv (setSunPosition pos view s)"
proof -
  from assms have df: "light (defaultPerViewData s) \<noteq> None"
    "lightPosUniform (defaultPerViewData s) \<noteq> None" "starsXform (defaultPerViewData s) = None"
    by (simp_all add: node_inv_def)
  consider "view = 0" | "view \<noteq> 0" "map_find (perViewData s) view \<noteq> None"
    | "view \<noteq> 0" "map_find (perViewData s) view = None" by blast
  then show ?thesis
  proof cases
    case 1
    show ?thesis
      by (rule node_inv_entries [OF assms,
            where g = "\<lambda>k. setSunPosition_data (sunDistance s) pos"])
         (simp_all add: setSunPosition_def 1 map_all_alt df sun_data_frame entry_ok_sun_moon)
  next
    case 2
    show ?thesis
      by (rule node_inv_entries [OF assms,
            where g = "\<lambda>k d. if k = view then setSunPosition_data (sunDistance s) pos d else d"])
         (use df in \<open>simp_all add: setSunPosition_def 2 map_modify_alt entry_ok_sun_moon\<close>)
  next
    case 3
    with assms show ?thesis by (simp add: setSunPosition_def)
  qed
qed

lemma setMoonPosition_inv:
  assumes "node_inv s"
  shows "node_inv (setMoonPosition pos view s)"
proof -
  from assms have df: "light (defaultPerViewData s) \<noteq> None"
    "lightPosUniform (defaultPerViewData s) \<noteq> None" "starsXform (defaultPerViewData s) = None"
    by (simp_all add: node_inv_def)
  have mp: "node_inv (s\<lparr>moonPosition := pos\<rparr>) = node_inv s"
    by (rule node_inv_cong) simp_all
  consider "view = 0" | "view \<noteq> 0" "map_find (perViewData s) view \<noteq> None"
    | "view \<noteq> 0" "map_find (perViewData s) view = None" by blast
  then show ?thesis
  proof cases
    case 1
    show ?thesis
      by (rule node_inv_entries [OF assms, where g = "\<lambda>k. setMoonPosition_data pos"])
         (simp_all add: setMoonPosition_def Let_def 1 map_all_alt df moon_data_frame entry_ok_sun_moon)
  next
    case 2
    show ?thesis
      by (rule node_inv_entries [OF assms,
            where g = "\<lambda>k d. if k = view then setMoonPosition_data pos d else d"])
         (use df in \<open>simp_all add: setMoonPosition_def Let_def 2 map_modify_alt entry_ok_sun_moon\<close>)
  next
    case 3
    with assms mp show ?thesis by (simp add: setMoonPosition_def Let_def)
  qed
qed

lemma makeSceneLighting_frame [simp]:
  "perViewData (makeSceneLighting s) = perViewData s"
  "defaultPerViewData (makeSceneLighting s) = defaultPerViewData s"
  "ellipsoidModel (makeSceneLighting s) = ellipsoidModel s"
  "dateTime (makeSceneLighting s) = dateTime s"
  "ephemeris (makeSceneLighting s) = ephemeris s"
  "sunDistance (makeSceneLighting s) = sunDistance s"
  "starsVisible (makeSceneLighting s) = starsVisible s"
  "minStarMagnitude (makeSceneLighting s) = minStarMagnitude s"
  by (simp_all add: makeSceneLighting_def Let_def)

lemma makeAtmosphere_frame [simp]:
  "perViewData (makeAtmosphere env e s) = perViewData s"
  "defaultPerViewData (makeAtmosphere env e s) = defaultPerViewData s"
  "ellipsoidModel (makeAtmosphere env e s) = ellipsoidModel s"
  "dateTime (makeAtmosphere env e s) = dateTime s"
  "ephemeris (makeAtmosphere env e s) = ephemeris s"
  "sunDistance (makeAtmosphere env e s) = sunDistance s"
  "starsVisible (makeAtmosphere env e s) = starsVisible s"
  "minStarMagnitude (makeAtmosphere env e s) = minStarMagnitude s"
  "uniforms (makeAtmosphere env e s) = uniforms s"
  by (simp_all add: makeAtmosphere_def)

lemma makeSun_frame [simp]:
  "perViewData (makeSun s) = perViewData s"
  "light (defaultPerViewData (makeSun s)) = light (defaultPerViewData s)"
  "lightPosUniform (defaultPerViewData (makeSun s)) = lightPosUniform (defaultPerViewData s)"
  "starsXform (defaultPerViewData (makeSun s)) = starsXform (defaultPerViewData s)"
  "ellipsoidModel (makeSun s) = ellipsoidModel s"
  "dateTime (makeSun s) = dateTime s"
  "ephemeris (makeSun s) = ephemeris s"
  "sunDistance (makeSun s) = sunDistance s"
  "starsVisible (makeSun s) = starsVisible s"
  "minStarMagnitude (makeSun s) = minStarMagnitude s"
  "uniforms (makeSun s) = uniforms s"
  by (simp_all add: makeSun_def Let_def)

lemma makeMoon_frame [simp]:
  "perViewData s = [] \<Longrightarrow> perViewData (makeMoon env s) = []"
  "light (defaultPerViewData (makeMoon env s)) = light (defaultPerViewData s)"
  "lightPosUniform (defaultPerViewData (makeMoon env s)) = lightPosUniform (defaultPerViewData s)"
  "starsXform (defaultPerViewData (makeMoon env s)) = starsXform (defaultPerViewData s)"
  "ellipsoidModel (makeMoon env s) = ellipsoidModel s"
  "dateTime (makeMoon env s) = dateTime s"
  "ephemeris (makeMoon env s) = ephemeris s"
  "sunDistance (makeMoon env s) = sunDistance s"
  "starsVisible (makeMoon env s) = starsVisible s"
  "minStarMagnitude (makeMoon env s) = minStarMagnitude s"
  "uniforms (makeMoon env s) = uniforms s"
  by (simp_all add: makeMoon_def Let_def setMoonVisible_def onSetMoonVisible_def
      set_mask_def map_all_def)

lemma makeStars_frame [simp]:
  "perViewData (makeStars env s) = perViewData s"
  "defaultPerViewData (makeStars env s) = defaultPerViewData s"
  "ellipsoidModel (makeStars env s) = ellipsoidModel s"
  "dateTime (makeStars env s) = dateTime s"
  "ephemeris (makeStars env s) = ephemeris s"
  "sunDistance (makeStars env s) = sunDistance s"
  "starsVisible (makeStars env s) = starsVisible s"
  "uniforms (makeStars env s) = uniforms s"
  by (simp_all add: makeStars_def Let_def)

lemma onSetDateTime_frame [simp]:
  "ellipsoidModel (onSetDateTime s) = ellipsoidModel s"
  "dateTime (onSetDateTime s) = dateTime s"
  "ephemeris (onSetDateTime s) = ephemeris s"
  "sunDistance (onSetDateTime s) = sunDistance s"
  "starsVisible (onSetDateTime s) = starsVisible s"
  "uniforms (onSetDateTime s) = uniforms s"
  "length (perViewData (onSetDateTime s)) = length (perViewData s)"
  "map fst (perViewData (onSetDateTime s)) = map fst (perViewData s)"
  by (cases "ellipsoidModel s";
      simp add: onSetDateTime_eq onSetDateTime_None length_map_all keys_map_all)+

lemma initialize_pre:
  "\<exists>s. initialize env e (constructed dt eph a b c m f) = onSetDateTime s
       \<and> node_pre s \<and> perViewData s = [] \<and> starsVisible s = c"
  unfolding initialize_def Let_def
  by (rule exI, rule conjI, rule refl)
     (simp add: node_pre_def constructed_def PerViewData0_def ex_vec3 split: option.splits)

section \<open>Traversal, attachment and visibility\<close>

lemma traverse_itr_entry:
  assumes "traverse_itr m view = Some (k, d)"
  shows "(k, d) \<in> set m \<and> map_find m k = Some d"
proof (cases "map_find m view")
  case None
  with assms obtain rest where "m = (k, d) # rest"
    by (auto simp: traverse_itr_def split: list.splits)
  then show ?thesis by (simp add: map_find_def)
next
  case (Some d')
  with assms have "k = view" "d' = d" by (simp_all add: traverse_itr_def)
  with Some show ?thesis by (auto simp: map_find_def dest: map_of_SomeD)
qed

lemma traverse_itr_registered:
  "map_find m view = Some d \<Longrightarrow> traverse_itr m view = Some (view, d)"
  by (simp add: traverse_itr_def)

lemma traverse_itr_fallback:
  "map_find m view = None \<Longrightarrow> traverse_itr m view = (case m of [] \<Rightarrow> None | e # rest \<Rightarrow> Some e)"
  by (simp add: traverse_itr_def)

lemma entry_ok_light:
  "entry_ok s e \<Longrightarrow> entry_ok s (e\<lparr>light := Some l\<rparr>)"
  by (simp add: entry_ok_def entry_pre_def stars_state_def)

lemma traverse_inv:
  assumes inv: "node_inv s" and tr: "traverse cv s = Some (s', t)"
  shows "node_inv s'"
proof (cases cv)
  case None
  with tr inv show ?thesis by (simp add: traverse_def)
next
  case (Some p)
  obtain view vp where p: "p = (view, vp)" by (cases p)
  from tr Some p obtain k d where itr: "traverse_itr (perViewData s) view = Some (k, d)"
    by (auto simp: traverse_def split: option.splits)
  show ?thesis
  proof (cases "autoAmbience s")
    case False
    with tr Some p itr have "s' = s"
      by (auto simp: traverse_def split: option.splits)
    with inv show ?thesis by simp
  next
    case True
    with tr Some p itr obtain l c where l: "light d = Some l" and c: "cullContainer d = Some c"
      by (auto simp: traverse_def split: option.splits)
    let ?f = "\<lambda>e. e\<lparr>light := Some (l\<lparr>ambient :=
        (auto_ambient vp (lightPos d), auto_ambient vp (lightPos d), auto_ambient vp (lightPos d), 1)\<rparr>)\<rparr>"
    from tr Some p itr True l c
    have s': "s' = s\<lparr>perViewData := map_modify k ?f (perViewData s)\<rparr>"
      by (simp add: traverse_def Let_def)
    from inv have all: "list_all (\<lambda>(k, d). k \<noteq> 0 \<and> entry_ok s d) (perViewData s)"
      by (simp add: node_inv_def)
    have "list_all (\<lambda>(k', e). k' \<noteq> 0 \<and> entry_ok s (if k' = k then ?f e else e)) (perViewData s)"
      by (rule list_all_mono_pair [OF all]) (simp add: entry_ok_light)
    then have "list_all (\<lambda>(k, d). k \<noteq> 0 \<and> entry_ok s d) (map_modify k ?f (perViewData s))"
      unfolding list_all_map_modify .
    moreover have "entry_ok s' = entry_ok s"
      by (rule ext, rule entry_ok_cong) (simp_all add: s')
    ultimately show ?thesis using inv by (simp add: node_inv_def s')
  qed
qed

lemma initialize_inv:
  "node_inv (initialize env e (constructed dt eph a b c m f))"
proof -
  from initialize_pre [of env e dt eph a b c m f]
  obtain s where "initialize env e (constructed dt eph a b c m f) = onSetDateTime s" "node_pre s"
    by blast
  then show ?thesis by (simp add: onSetDateTime_inv)
qed

lemma reachable_inv: "reachable s \<Longrightarrow> node_inv s"
proof (induction rule: reachable.induct)
  case (r_init env ellipsoid dt eph sunVis moonVis starsVis minMag fl)
  show ?case by (rule initialize_inv)
next
  case (r_attach s view lightNumber)
  then show ?case by (simp add: attach_inv)
next
  case (r_date s dt)
  then show ?case by (simp add: setDateTime_inv)
next
  case (r_ephemeris s eph)
  then show ?case by (simp add: setEphemeris_inv)
next
  case (r_stars s v)
  then show ?case by (simp add: setStarsVisible_inv)
next
  case (r_moon s v)
  then show ?case by (simp add: setMoonVisible_inv)
next
  case (r_sun s v)
  then show ?case by (simp add: setSunVisible_inv)
next
  case (r_sun_position s pos view)
  then show ?case by (simp add: setSunPosition_inv)
next
  case (r_moon_position s pos view)
  then show ?case by (simp add: setMoonPosition_inv)
next
  case (r_traverse s cv s' t)
  then show ?case by (auto intro: traverse_inv)
qed

lemma reachable_entries:
  "reachable s \<Longrightarrow> list_all (\<lambda>(k, d). k \<noteq> 0 \<and> entry_pre d) (perViewData s)"
  using node_inv_imp_pre [OF reachable_inv] by (simp add: node_pre_def)

lemma initialize_registry:
  "perViewData (initialize env e (constructed dt eph a b c m f)) = []"
proof -
  from initialize_pre [of env e dt eph a b c m f]
  obtain s where s: "initialize env e (constructed dt eph a b c m f) = onSetDateTime s"
    "perViewData s = []"
    by blast
  have "perViewData (onSetDateTime s) = []"
    by (cases "ellipsoidModel s")
       (simp_all add: onSetDateTime_None onSetDateTime_eq s(2) map_all_def)
  with s(1) show ?thesis by simp
qed

text \<open>
  Claim C1. The iterator of \<open>traverse\<close> is the entry of the view when the view is
  registered (\<open>traverse_itr_registered\<close>) and the first entry of the map otherwise
  (\<open>traverse_itr_fallback\<close>). The default state is a member of the node of its own and
  never an entry of the map: after \<open>initialize\<close>, with no view attached, the map is
  empty, the iterator is the past-the-end iterator for every view, and the traversal
  of a cull visitor dereferences it.
\<close>

theorem traverse_after_initialize:
  "perViewData (initialize env e (constructed dt eph a b c m f)) = []
   \<and> traverse_itr (perViewData (initialize env e (constructed dt eph a b c m f))) view = None
   \<and> traverse (Some (view, viewPoint)) (initialize env e (constructed dt eph a b c m f)) = None"
  by (simp add: initialize_registry traverse_def traverse_itr_def map_find_def)

text \<open>
  Claim C5. In every reachable state, attaching a view that is already registered
  leaves the size and the keys of the map as they are, and the entry of the view keeps
  the date and the star matrix and transform it had. It keeps its sun and moon state
  as well (the light position vector, the position of the light, the uniform, the sun
  transform, the moon matrix and transform) whenever that state is the one the
  date/time of the node left in it, that is, unless a sun or moon position was set
  directly since.
\<close>

theorem attach_again:
  assumes r: "reachable s" and reg: "map_find (perViewData s) view = Some d"
  shows "length (perViewData (attach view n s)) = length (perViewData s)
     \<and> map fst (perViewData (attach view n s)) = map fst (perViewData s)
     \<and> (\<exists>d'. map_find (perViewData (attach view n s)) view = Some d'
           \<and> stars_state d' = stars_state d
           \<and> (date_state d = applied_date_state s \<longrightarrow> date_state d' = date_state d))"
proof (cases "view = 0")
  case True
  with reg show ?thesis by (simp add: attach_def)
next
  case False
  from r have inv: "node_inv s" by (rule reachable_inv)
  then obtain em where em: "ellipsoidModel s = Some em" by (auto simp: node_inv_def)
  from inv have all: "list_all (\<lambda>(k, d). k \<noteq> 0 \<and> entry_ok s d) (perViewData s)"
    by (simp add: node_inv_def)
  from list_all_map_find [OF all reg] have ok: "entry_ok s d" by simp
  let ?m = "map_modify view (attach_data s n) (perViewData s)"
  let ?s1 = "s\<lparr>perViewData := ?m\<rparr>"
  let ?d' = "apply_date ?s1 (attach_data s n d)"
  have att: "attach view n s = onSetDateTime ?s1"
    using False by (simp add: attach_def map_index_found [OF reg])
  have em1: "ellipsoidModel ?s1 = Some em" using em by simp
  have pv: "perViewData (attach view n s) = map_all (apply_date ?s1) ?m"
    unfolding att by (simp add: onSetDateTime_eq [OF em1])
  have pre: "entry_pre (attach_data s n d)"
    using inv by (intro attach_data_pre) (simp_all add: node_inv_def)
  have ds: "date_state ?d' = applied_date_state s"
  proof -
    have "date_state ?d' = applied_date_state ?s1"
      by (rule apply_date_state [OF pre])
    also have "\<dots> = applied_date_state s"
      by (rule applied_date_state_cong) simp_all
    finally show ?thesis .
  qed
  have ss: "stars_state ?d' = stars_state d"
  proof -
    from pre have "stars_state ?d' = applied_stars_state ?s1"
      by (intro apply_date_stars) (simp add: entry_pre_def)
    also have "\<dots> = applied_stars_state s"
      by (simp add: applied_stars_state_def)
    also have "\<dots> = stars_state d" using ok by (simp add: entry_ok_def)
    finally show ?thesis .
  qed
  have len: "length (perViewData (attach view n s)) = length (perViewData s)"
    unfolding pv by (simp add: length_map_all length_map_modify)
  have keys: "map fst (perViewData (attach view n s)) = map fst (perViewData s)"
    unfolding pv by (simp add: keys_map_all keys_map_modify)
  have ent: "map_find (perViewData (attach view n s)) view = Some ?d'"
    unfolding pv by (simp add: map_find_map_all map_find_map_modify reg)
  from ds have "date_state d = applied_date_state s \<longrightarrow> date_state ?d' = date_state d"
    by simp
  with len keys ent ss show ?thesis by blast
qed

lemma attach_registers:
  "view \<noteq> 0 \<Longrightarrow> \<exists>d. map_find (perViewData (attach view n s)) view = Some d"
  by (cases "ellipsoidModel s")
     (auto simp: attach_def onSetDateTime_None onSetDateTime_eq map_find_map_all
        map_find_map_modify map_find_map_index)

lemma reachable_sample: "reachable sample_node"
  unfolding sample_node_def by (rule r_init)

lemma apply_date_cong:
  "dateTime s' = dateTime s \<Longrightarrow> ephemeris s' = ephemeris s \<Longrightarrow> sunDistance s' = sunDistance s
   \<Longrightarrow> apply_date s' = apply_date s"
  by (rule ext) (simp add: apply_date_def)

lemma attach_entry:
  assumes "view \<noteq> 0" and em: "ellipsoidModel s = Some em"
  shows "map_find (perViewData (attach view n s)) view =
     Some (apply_date s (attach_data s n
        (case map_find (perViewData s) view of Some d \<Rightarrow> d | None \<Rightarrow> PerViewData0)))"
proof -
  let ?m = "map_modify view (attach_data s n) (map_index view (perViewData s))"
  have em1: "ellipsoidModel (s\<lparr>perViewData := ?m\<rparr>) = Some em" using em by simp
  have "apply_date (s\<lparr>perViewData := ?m\<rparr>) = apply_date s"
    by (rule apply_date_cong) simp_all
  then show ?thesis
    using assms(1)
    by (simp add: attach_def onSetDateTime_eq [OF em1] map_find_map_all map_find_map_modify
        map_find_map_index)
qed

lemma stars_mask_apply_date:
  "map_option nodeMask (starsXform (apply_date s d)) = map_option nodeMask (starsXform d)"
  by (cases "starsXform d")
     (auto simp: apply_date_def set_stars_def setMoonPosition_data_def setSunPosition_data_def
        Let_def split: option.splits)

lemma stars_mask_attach_data:
  "map_option nodeMask (starsXform (attach_data s n d)) = Some (visibility_mask (starsVisible s))"
  by (simp add: attach_data_def Let_def)

lemma initialize_facts:
  "ellipsoidModel (initialize env e (constructed dt eph a b c m f)) = Some e"
  "starsVisible (initialize env e (constructed dt eph a b c m f)) = c"
  unfolding initialize_def Let_def
  by (simp_all add: constructed_def split: option.splits)

theorem attach_again_witness:
  "reachable (attach 1 0 sample_node)
   \<and> (\<exists>d d'. map_find (perViewData (attach 1 0 sample_node)) 1 = Some d
        \<and> date_state d = applied_date_state (attach 1 0 sample_node)
        \<and> length (perViewData (attach 1 7 (attach 1 0 sample_node))) =
            length (perViewData (attach 1 0 sample_node))
        \<and> map_find (perViewData (attach 1 7 (attach 1 0 sample_node))) 1 = Some d'
        \<and> stars_state d' = stars_state d
        \<and> date_state d' = date_state d)"
proof -
  let ?a = "attach 1 0 sample_node"
  have r0: "reachable sample_node" by (rule reachable_sample)
  have r: "reachable ?a"
    by (rule r_attach) (rule r0)
  from reachable_inv [OF r0] have df: "light (defaultPerViewData sample_node) \<noteq> None"
    "lightPosUniform (defaultPerViewData sample_node) \<noteq> None"
    by (simp_all add: node_inv_def)
  have em: "ellipsoidModel sample_node = Some wgs84"
    by (simp add: sample_node_def initialize_facts)
  define d0 where "d0 = attach_data sample_node 0
     (case map_find (perViewData sample_node) 1 of Some d \<Rightarrow> d | None \<Rightarrow> PerViewData0)"
  have d: "map_find (perViewData ?a) 1 = Some (apply_date sample_node d0)"
    unfolding d0_def by (rule attach_entry [OF _ em]) simp
  have "entry_pre d0"
    unfolding d0_def by (rule attach_data_pre [OF df])
  then have "date_state (apply_date sample_node d0) = applied_date_state sample_node"
    by (rule apply_date_state)
  also have "\<dots> = applied_date_state ?a"
    by (rule applied_date_state_cong [symmetric]) (simp_all add: attach_def)
  finally have sync: "date_state (apply_date sample_node d0) = applied_date_state ?a" .
  from attach_again [OF r d, of 7] sync d r show ?thesis by blast
qed

text \<open>
  Claim C2. \<open>onSetStarsVisible\<close> writes the masks only when the default state has a star
  transform, and no function of the file gives it one (\<open>makeSun\<close> and \<open>makeMoon\<close> make
  the sun and moon transforms of the default state, \<open>makeStars\<close> makes none). So on a
  node constructed with visible stars and one attached view, setting the stars
  invisible changes the flag and nothing else: the star transform of the view keeps
  the full mask \<open>0xffffffff\<close>.
\<close>

theorem stars_toggle_leaves_masks:
  "map_option (\<lambda>d. map_option nodeMask (starsXform d))
        (map_find (perViewData (attach 1 0 (initialize env e (constructed dt eph a b True m f)))) 1)
      = Some (Some (NOT 0))
   \<and> setStarsVisible False (attach 1 0 (initialize env e (constructed dt eph a b True m f)))
      = (attach 1 0 (initialize env e (constructed dt eph a b True m f)))\<lparr>starsVisible := False\<rparr>
   \<and> map_option (\<lambda>d. map_option nodeMask (starsXform d))
        (map_find (perViewData (setStarsVisible False
            (attach 1 0 (initialize env e (constructed dt eph a b True m f))))) 1)
      = Some (Some (NOT 0))"
proof -
  let ?i = "initialize env e (constructed dt eph a b True m f)"
  let ?s = "attach 1 0 ?i"
  have r: "reachable ?s" by (intro r_attach r_init)
  then have "node_inv ?s" by (rule reachable_inv)
  then have "starsXform (defaultPerViewData ?s) = None" by (simp add: node_inv_def)
  then have noop: "setStarsVisible False ?s = ?s\<lparr>starsVisible := False\<rparr>"
    by (rule setStarsVisible_noop)
  have "map_find (perViewData ?s) 1 =
     Some (apply_date ?i (attach_data ?i 0
        (case map_find (perViewData ?i) 1 of Some d \<Rightarrow> d | None \<Rightarrow> PerViewData0)))"
    by (rule attach_entry [OF _ initialize_facts(1)]) simp
  then have mask: "map_option (\<lambda>d. map_option nodeMask (starsXform d)) (map_find (perViewData ?s) 1)
      = Some (Some (NOT 0))"
    by (simp add: stars_mask_apply_date stars_mask_attach_data initialize_facts(2)
        visibility_mask_def)
  from mask noop show ?thesis by simp
qed

section \<open>The rotation of the star field\<close>


lemma starsMatrix_apply_date:
  "starsMatrix (apply_date s d) = MatRotate (- rot_z (dateTime s)) 0 0 1"
  "starsXform d \<noteq> None \<Longrightarrow>
     map_option matrix (starsXform (apply_date s d)) = Some (MatRotate (- rot_z (dateTime s)) 0 0 1)"
  by (auto simp: apply_date_def set_stars_def setMoonPosition_data_def setSunPosition_data_def
        Let_def split: option.splits)

lemma list_all_pair_trivial: "(\<And>k d. P k d) \<Longrightarrow> list_all (\<lambda>(k, d). P k d) m"
  by (induction m) auto

text \<open>
  Claim C3, as amended. On every date/time change of a node with an ellipsoid the angle
  is \<open>rot_z = -\<pi> + 2\<pi> * (hours / 24)\<close>, and the star matrix stored in the default state
  and in every entry of the map (and set on the entry's star transform) is the
  rotation about the z axis by \<open>- rot_z\<close>; the date is stored with it. At
  \<open>hours = 12\<close> the angle is \<open>0\<close>.
\<close>

theorem star_rotation:
  assumes "ellipsoidModel s = Some em"
  shows "rot_z dt = - pi + 2 * pi * (hours dt / 24)
    \<and> starsMatrix (defaultPerViewData (setDateTime dt s)) = MatRotate (- rot_z dt) 0 0 1
    \<and> date (defaultPerViewData (setDateTime dt s)) = Some dt
    \<and> list_all (\<lambda>(k, d). starsMatrix d = MatRotate (- rot_z dt) 0 0 1
            \<and> (starsXform d \<noteq> None \<longrightarrow>
                 map_option matrix (starsXform d) = Some (MatRotate (- rot_z dt) 0 0 1)))
         (perViewData (setDateTime dt s))
    \<and> (hours dt = 12 \<longrightarrow> rot_z dt = 0)"
proof -
  let ?s1 = "s\<lparr>dateTime := dt\<rparr>"
  have em1: "ellipsoidModel ?s1 = Some em" using assms by simp
  have a: "rot_z dt = - pi + 2 * pi * (hours dt / 24)" by (simp add: rot_z_def)
  have b: "starsMatrix (defaultPerViewData (setDateTime dt s)) = MatRotate (- rot_z dt) 0 0 1"
    "date (defaultPerViewData (setDateTime dt s)) = Some dt"
    by (simp_all add: setDateTime_def onSetDateTime_eq [OF em1])
  have pv: "perViewData (setDateTime dt s) = map_all (apply_date ?s1) (perViewData s)"
    by (simp add: setDateTime_def onSetDateTime_eq [OF em1])
  have xf: "starsXform (apply_date ?s1 d) \<noteq> None \<Longrightarrow> starsXform d \<noteq> None" for d
    by (auto simp: apply_date_def set_stars_def setMoonPosition_data_def setSunPosition_data_def
        Let_def split: option.splits)
  have c: "list_all (\<lambda>(k, d). starsMatrix d = MatRotate (- rot_z dt) 0 0 1
            \<and> (starsXform d \<noteq> None \<longrightarrow>
                 map_option matrix (starsXform d) = Some (MatRotate (- rot_z dt) 0 0 1)))
         (perViewData (setDateTime dt s))"
    unfolding pv list_all_map_all
    by (rule list_all_pair_trivial) (use xf starsMatrix_apply_date [where s = ?s1] in auto)
  have d: "hours dt = 12 \<longrightarrow> rot_z dt = 0" by (simp add: rot_z_def)
  from a b c d show ?thesis by blast
qed

theorem star_rotation_witness:
  "ellipsoidModel (attach 1 0 sample_node) = Some wgs84
   \<and> hours noon = 12
   \<and> rot_z noon = 0
   \<and> starsMatrix (defaultPerViewData (setDateTime noon (attach 1 0 sample_node))) = MatRotate 0 0 0 1
   \<and> map_option starsMatrix (map_find (perViewData (setDateTime noon (attach 1 0 sample_node))) 1)
       = Some (MatRotate 0 0 0 1)"
proof -
  have em: "ellipsoidModel (attach 1 0 sample_node) = Some wgs84"
    by (simp add: attach_def sample_node_def initialize_facts)
  have h: "hours noon = 12" by (simp add: noon_def)
  note t = star_rotation [OF em, of noon]
  from t h have z: "rot_z noon = 0" by blast
  from t z have dm: "starsMatrix (defaultPerViewData (setDateTime noon (attach 1 0 sample_node)))
      = MatRotate 0 0 0 1" by simp
  from attach_registers [of 1 0 sample_node]
  obtain d where d: "map_find (perViewData (attach 1 0 sample_node)) 1 = Some d" by auto
  let ?s1 = "(attach 1 0 sample_node)\<lparr>dateTime := noon\<rparr>"
  have em1: "ellipsoidModel ?s1 = Some wgs84" using em by simp
  have "map_find (perViewData (setDateTime noon (attach 1 0 sample_node))) 1 =
      Some (apply_date ?s1 d)"
    by (simp add: setDateTime_def onSetDateTime_eq [OF em1] map_find_map_all d del: One_nat_def)
  then have "map_option starsMatrix (map_find (perViewData (setDateTime noon (attach 1 0 sample_node))) 1)
       = Some (MatRotate 0 0 0 1)"
    using z by (simp add: starsMatrix_apply_date)
  with em h z dm show ?thesis by blast
qed

text \<open>
  The claim as written fails at noon: the angle is \<open>0\<close>, and neither it nor the angle
  handed to the rotation is \<open>\<pi>\<close>.
\<close>

theorem star_rotation_counterexample:
  "rot_z noon \<noteq> pi \<and> - rot_z noon \<noteq> pi \<and> hours noon = 12"
  by (simp add: rot_z_def noon_def)

section \<open>The scattering parameters\<close>

lemma uniforms_initialize:
  "uniforms (initialize env e (constructed dt eph a b c m f)) =
   uniforms (makeSceneLighting
     ((constructed dt eph a b c m f)\<lparr>innerRadius := radiusPolar e,
                                      outerRadius := radiusPolar e * 1.025\<rparr>))"
  unfolding initialize_def Let_def
  by (simp add: makeSceneLighting_def Let_def constructed_def split: option.splits)

lemma scattering_lookups:
  fixes s :: SimpleSkyNode and Ri :: real
  assumes "innerRadius s = Ri" "outerRadius s = Ri * 1.025"
  defines "U \<equiv> uniforms (makeSceneLighting s)"
  shows "U ''atmos_fInnerRadius'' = Some (UFloat (Ri))"
    and "U ''atmos_fInnerRadius2'' = Some (UFloat (Ri * Ri))"
    and "U ''atmos_fOuterRadius'' = Some (UFloat (1.025 * Ri))"
    and "U ''atmos_fOuterRadius2'' = Some (UFloat ((1.025 * Ri) * (1.025 * Ri)))"
    and "U ''atmos_fScale'' = Some (UFloat (1 / (1.025 * Ri - Ri)))"
    and "U ''atmos_fScaleDepth'' = Some (UFloat 0.25)"
    and "U ''atmos_fScaleOverScaleDepth'' =
           Some (UFloat (1 / (1.025 * Ri - Ri) / 0.25))"
    and "U ''atmos_fKrESun'' = Some (UFloat (0.0025 * 15))"
    and "U ''atmos_fKmESun'' = Some (UFloat (0.0015 * 15))"
    and "U ''atmos_fKr4PI'' = Some (UFloat (0.0025 * 4 * pi))"
    and "U ''atmos_fKm4PI'' = Some (UFloat (0.0015 * 4 * pi))"
    and "U ''atmos_g'' = Some (UFloat (- 0.095))"
    and "U ''atmos_g2'' = Some (UFloat ((- 0.095) * (- 0.095)))"
    and "U ''atmos_nSamples'' = Some (UInt 2)"
    and "U ''atmos_fSamples'' = Some (UFloat 2)"
    and "U ''atmos_v3InvWavelength'' = Some (UVec3 (1 / 0.65 ^ 4, 1 / 0.57 ^ 4, 1 / 0.475 ^ 4))"
  unfolding U_def
  by (simp_all add: assms(1,2) makeSceneLighting_def Let_def)


text \<open>
  Claim C7. The uniforms of the scattering model after construction depend on the
  inner radius \<open>Ri\<close> (the polar radius of the ellipsoid) alone: two constructions
  with the same \<open>Ri\<close>, whatever their other inputs, give the same set. With
  \<open>Ro = 1.025 * Ri\<close> and \<open>Scale = 1 / (Ro - Ri)\<close> the set holds \<open>Ri\<close>, \<open>Ro\<close> and their
  squares, \<open>Scale\<close>, the scale depth \<open>0.25\<close>, \<open>Scale / 0.25\<close>, \<open>Kr * ESun\<close>, \<open>Km * ESun\<close>,
  \<open>Kr * 4\<pi>\<close>, \<open>Km * 4\<pi>\<close>, \<open>MPhase\<close> and its square, the sample count \<open>2\<close>, and the
  componentwise inverse of the fourth powers of \<open>(0.65, 0.57, 0.475)\<close>, for
  \<open>Kr = 0.0025\<close>, \<open>Km = 0.0015\<close>, \<open>ESun = 15\<close>, \<open>MPhase = -0.095\<close>.
\<close>

theorem scattering_parameters:
  assumes "radiusPolar e = Ri" and "radiusPolar e' = Ri"
  shows "(let U = uniforms (initialize env e (constructed dt eph a b c m f));
              Ro = 1.025 * Ri;
              Scale = 1 / (Ro - Ri)
          in uniforms (initialize env' e' (constructed dt' eph' a' b' c' m' f')) = U
           \<and> U ''atmos_fInnerRadius'' = Some (UFloat Ri)
           \<and> U ''atmos_fInnerRadius2'' = Some (UFloat (Ri * Ri))
           \<and> U ''atmos_fOuterRadius'' = Some (UFloat Ro)
           \<and> U ''atmos_fOuterRadius2'' = Some (UFloat (Ro * Ro))
           \<and> U ''atmos_fScale'' = Some (UFloat Scale)
           \<and> U ''atmos_fScaleDepth'' = Some (UFloat 0.25)
           \<and> U ''atmos_fScaleOverScaleDepth'' = Some (UFloat (Scale / 0.25))
           \<and> U ''atmos_fKrESun'' = Some (UFloat (0.0025 * 15))
           \<and> U ''atmos_fKmESun'' = Some (UFloat (0.0015 * 15))
           \<and> U ''atmos_fKr4PI'' = Some (UFloat (0.0025 * 4 * pi))
           \<and> U ''atmos_fKm4PI'' = Some (UFloat (0.0015 * 4 * pi))
           \<and> U ''atmos_g'' = Some (UFloat (- 0.095))
           \<and> U ''atmos_g2'' = Some (UFloat ((- 0.095) * (- 0.095)))
           \<and> U ''atmos_nSamples'' = Some (UInt 2)
           \<and> U ''atmos_fSamples'' = Some (UFloat 2)
           \<and> U ''atmos_v3InvWavelength'' =
                Some (UVec3 (1 / 0.65 ^ 4, 1 / 0.57 ^ 4, 1 / 0.475 ^ 4)))"
proof -
  let ?s = "(constructed dt eph a b c m f)\<lparr>innerRadius := Ri, outerRadius := Ri * 1.025\<rparr>"
  let ?s' = "(constructed dt' eph' a' b' c' m' f')\<lparr>innerRadius := Ri, outerRadius := Ri * 1.025\<rparr>"
  have U: "uniforms (initialize env e (constructed dt eph a b c m f)) =
      uniforms (makeSceneLighting ?s)"
    by (simp only: uniforms_initialize assms(1))
  have U': "uniforms (initialize env' e' (constructed dt' eph' a' b' c' m' f')) =
      uniforms (makeSceneLighting ?s')"
    by (simp only: uniforms_initialize assms(2))
  have same: "uniforms (makeSceneLighting ?s') = uniforms (makeSceneLighting ?s)"
    by (simp add: makeSceneLighting_def Let_def constructed_def)
  have i: "innerRadius ?s = Ri" and o: "outerRadius ?s = Ri * 1.025" by simp_all
  note L = scattering_lookups [OF i o]
  show ?thesis
    unfolding Let_def U U' same
    by (intro conjI refl L)
qed

theorem scattering_parameters_witness:
  "radiusPolar wgs84 = 6356752.3142
   \<and> radiusPolar \<lparr>radiusEquator = 1, radiusPolar = 6356752.3142\<rparr> = 6356752.3142
   \<and> uniforms (initialize (sample_env\<lparr>moonImage := False\<rparr>)
                 \<lparr>radiusEquator = 1, radiusPolar = 6356752.3142\<rparr>
                 (constructed (noon\<lparr>hours := 3\<rparr>) sample_ephemeris False True False 4 (Some ''stars.txt'')))
       = uniforms sample_node
   \<and> uniforms sample_node ''atmos_fOuterRadius'' = Some (UFloat (1.025 * 6356752.3142))
   \<and> uniforms sample_node ''atmos_fScale'' =
       Some (UFloat (1 / (1.025 * 6356752.3142 - 6356752.3142)))"
proof -
  have h: "radiusPolar wgs84 = 6356752.3142"
    "radiusPolar \<lparr>radiusEquator = 1, radiusPolar = 6356752.3142\<rparr> = 6356752.3142"
    by (simp_all add: wgs84_def)
  from scattering_parameters [OF h,
      where env' = "sample_env\<lparr>moonImage := False\<rparr>" and dt' = "noon\<lparr>hours := 3\<rparr>"
        and eph' = sample_ephemeris and a' = False and b' = True and c' = False and m' = 4
        and f' = "Some ''stars.txt''"
        and env = sample_env and dt = noon and eph = sample_ephemeris and a = True and b = True
        and c = True and m = "- 1" and f = None]
  show ?thesis
    unfolding Let_def sample_node_def using h by blast
qed

lemma spec_ambient_values:
  "spec_ambient 0.275 = 0.56" "spec_ambient (- 0.2) = 0.2" "spec_ambient 0.75 = 0.92"
  by (simp_all add: spec_ambient_def)

lemma clampBetween_range: "lo \<le> hi \<Longrightarrow> lo \<le> clampBetween v lo hi \<and> clampBetween v lo hi \<le> hi"
  by (simp add: clampBetween_def)

lemma spec_ambient_range:
  assumes "- 0.2 \<le> dev" "dev \<le> 0.75"
  shows "0.2 \<le> spec_ambient dev \<and> spec_ambient dev \<le> 0.92"
proof -
  have "spec_ambient dev = 0.2 + (dev + 0.2) * (0.72 / 0.95)"
    by (simp add: spec_ambient_def)
  moreover have "0 \<le> (dev + 0.2) * (0.72 / 0.95)" using assms by simp
  moreover have "(dev + 0.2) * (0.72 / 0.95) \<le> 0.95 * (0.72 / 0.95)"
    using assms by (intro mult_right_mono) simp_all
  ultimately show ?thesis by simp
qed

lemma auto_ambient_spec:
  "auto_ambient viewPoint lightPosition =
     spec_ambient (clampBetween (dot (normalize viewPoint) (normalize lightPosition)) (- 0.2) 0.75)"
  by (simp add: auto_ambient_def spec_ambient_def Let_def)

text \<open>
  Claim C8. With auto-ambience on, a cull traversal that resolves to an entry with a
  light and a cull container sets the ambient colour of that entry's light to
  \<open>(amb, amb, amb, 1)\<close>, where \<open>amb\<close> is the linear map of
  \<open>deviation = clamp(eye \<cdot> sun, -0.2, 0.75)\<close> from \<open>[-0.2, 0.75]\<close> onto \<open>[0.2, 0.92]\<close>
  (\<open>eye\<close> the normalised view point, \<open>sun\<close> the normalised light position of the
  entry): \<open>amb\<close> lies in \<open>[0.2, 0.92]\<close>, the ends map to the ends, and the deviation
  \<open>0.275\<close> gives \<open>0.56\<close>.
\<close>

theorem auto_ambience:
  assumes "autoAmbience s"
    and "traverse_itr (perViewData s) view = Some (k, d)"
    and "light d = Some l"
    and "cullContainer d = Some c"
  shows "(let dev = clampBetween (dot (normalize viewPoint) (normalize (lightPos d))) (- 0.2) 0.75;
              amb = spec_ambient dev
          in auto_ambient viewPoint (lightPos d) = amb
           \<and> 0.2 \<le> amb \<and> amb \<le> 0.92
           \<and> (\<exists>s'. traverse (Some (view, viewPoint)) s = Some (s', Culled k)
                 \<and> map_option light (map_find (perViewData s') k) =
                     Some (Some (l\<lparr>ambient := (amb, amb, amb, 1)\<rparr>)))
           \<and> (dot (normalize viewPoint) (normalize (lightPos d)) = 0.275 \<longrightarrow> amb = 0.56)
           \<and> spec_ambient (- 0.2) = 0.2 \<and> spec_ambient 0.75 = 0.92)"
proof -
  let ?dev = "clampBetween (dot (normalize viewPoint) (normalize (lightPos d))) (- 0.2) 0.75"
  let ?amb = "spec_ambient ?dev"
  have a: "auto_ambient viewPoint (lightPos d) = ?amb" by (rule auto_ambient_spec)
  have "(- 0.2 :: real) \<le> 0.75" by simp
  from clampBetween_range [OF this] have "- 0.2 \<le> ?dev" "?dev \<le> 0.75" by simp_all
  then have r: "0.2 \<le> ?amb \<and> ?amb \<le> 0.92" by (rule spec_ambient_range)
  let ?s' = "s\<lparr>perViewData := map_modify k
      (\<lambda>e. e\<lparr>light := Some (l\<lparr>ambient := (?amb, ?amb, ?amb, 1)\<rparr>)\<rparr>) (perViewData s)\<rparr>"
  have t: "traverse (Some (view, viewPoint)) s = Some (?s', Culled k)"
    using assms by (simp add: traverse_def Let_def a)
  from traverse_itr_entry [OF assms(2)] have "map_find (perViewData s) k = Some d" by simp
  then have m: "map_option light (map_find (perViewData ?s') k) =
      Some (Some (l\<lparr>ambient := (?amb, ?amb, ?amb, 1)\<rparr>))"
    by (simp add: map_find_map_modify)
  have p: "dot (normalize viewPoint) (normalize (lightPos d)) = 0.275 \<longrightarrow> ?amb = 0.56"
  proof
    assume h: "dot (normalize viewPoint) (normalize (lightPos d)) = 0.275"
    have "clampBetween 0.275 (- 0.2) 0.75 = 0.275" by (simp add: clampBetween_def)
    with h show "?amb = 0.56" by (simp only: spec_ambient_values(1))
  qed
  from a r t m p spec_ambient_values(2,3) show ?thesis
    unfolding Let_def by blast
qed

section \<open>The ambient light of the traversal\<close>

lemma lightPos_apply_date:
  "lightPos (apply_date s d) = normalize (getSunPositionECEF (ephemeris s) (dateTime s))"
  by (auto simp: apply_date_def set_stars_def setMoonPosition_data_def setSunPosition_data_def
      Let_def split: option.splits)

lemma sample_sun: "normalize (getSunPositionECEF sample_ephemeris dt) = (1, 0, 0)"
  by (simp add: sample_ephemeris_def normalize_def vec3_length_def vec3_div_def)

lemma sample_view_point:
  "dot (normalize (0.275, sqrt 0.924375, 0)) (normalize (1, 0, 0)) = 0.275"
proof -
  have "vec3_length (0.275, sqrt 0.924375, 0) = 1"
    by (simp add: vec3_length_def)
  then show ?thesis
    by (simp add: normalize_def vec3_length_def vec3_div_def dot_def)
qed

theorem auto_ambience_witness:
  "autoAmbience ((attach 1 0 sample_node)\<lparr>autoAmbience := True\<rparr>)
   \<and> (\<exists>d l c s'.
         traverse_itr (perViewData ((attach 1 0 sample_node)\<lparr>autoAmbience := True\<rparr>)) 1 = Some (1, d)
       \<and> light d = Some l
       \<and> cullContainer d = Some c
       \<and> dot (normalize (0.275, sqrt 0.924375, 0)) (normalize (lightPos d)) = 0.275
       \<and> traverse (Some (1, (0.275, sqrt 0.924375, 0)))
            ((attach 1 0 sample_node)\<lparr>autoAmbience := True\<rparr>) = Some (s', Culled 1)
       \<and> map_option light (map_find (perViewData s') 1) =
            Some (Some (l\<lparr>ambient := (0.56, 0.56, 0.56, 1)\<rparr>)))"
proof -
  let ?a = "attach 1 0 sample_node"
  let ?S = "?a\<lparr>autoAmbience := True\<rparr>"
  let ?vp = "(0.275, sqrt 0.924375, 0) :: Vec3"
  have r: "reachable ?a" by (rule r_attach) (rule reachable_sample)
  then have inv: "node_inv ?a" by (rule reachable_inv)
  have em: "ellipsoidModel sample_node = Some wgs84"
    by (simp add: sample_node_def initialize_facts)
  define d0 where "d0 = attach_data sample_node 0
     (case map_find (perViewData sample_node) 1 of Some d \<Rightarrow> d | None \<Rightarrow> PerViewData0)"
  define d where "d = apply_date sample_node d0"
  have d: "map_find (perViewData ?a) 1 = Some d"
    unfolding d_def d0_def by (rule attach_entry [OF _ em]) simp
  from inv have "list_all (\<lambda>(k, d). k \<noteq> 0 \<and> entry_ok ?a d) (perViewData ?a)"
    by (simp add: node_inv_def)
  from list_all_map_find [OF this d] have ok: "entry_ok ?a d" by simp
  then obtain l c where l: "light d = Some l" and c: "cullContainer d = Some c"
    by (auto simp: entry_ok_def entry_pre_def)
  have eph: "ephemeris sample_node = sample_ephemeris"
    by (simp add: sample_node_def initialize_def Let_def constructed_def
        split: option.splits)
  have lp: "lightPos d = (1, 0, 0)"
    unfolding d_def lightPos_apply_date eph by (rule sample_sun)
  have au: "autoAmbience ?S" by simp
  have itr: "traverse_itr (perViewData ?S) 1 = Some (1, d)"
    using d by (simp add: traverse_itr_def)
  have dt: "dot (normalize ?vp) (normalize (lightPos d)) = 0.275"
    by (simp only: lp sample_view_point)
  note t = auto_ambience [OF au itr l c, of ?vp, unfolded Let_def]
  from t dt have amb: "spec_ambient (clampBetween (dot (normalize ?vp) (normalize (lightPos d))) (- 0.2) 0.75) = 0.56"
    by blast
  from t obtain s' where "traverse (Some (1, ?vp)) ?S = Some (s', Culled 1)"
    "map_option light (map_find (perViewData s') 1) =
       Some (Some (l\<lparr>ambient := (0.56, 0.56, 0.56, 1)\<rparr>))"
    unfolding amb by blast
  with au itr l c dt show ?thesis by blast
qed

end
